theory Spec2Isabelle
  imports Complex_Main
begin

section \<open>Values, outbound operations and errors\<close>

text \<open>
  The converters of \<^verbatim>\<open>src/devices/bosch.ts\<close> and \<^verbatim>\<open>src/lib/bosch.ts\<close> receive
  untyped JavaScript values and talk to a Zigbee endpoint through \<^verbatim>\<open>write\<close>,
  \<^verbatim>\<open>read\<close>, \<^verbatim>\<open>command\<close>, \<^verbatim>\<open>commandResponse\<close> and \<^verbatim>\<open>readResponse\<close>. A JavaScript
  value is one of the shapes below; numbers are exact rationals.
\<close>

datatype jsval = JUndefined | JBool bool | JNum rat | JStr string | JBuffer "nat list"

text \<open>A cluster, attribute or command is named either by number or by name.\<close>

datatype ident = ById nat | ByName string

text \<open>
  The option objects passed to the transport: \<^verbatim>\<open>manufacturerOptions\<close> /
  \<^verbatim>\<open>manufacturerOpts\<close>, none, \<^verbatim>\<open>{sendPolicy: 'immediate'}\<close> and \<^verbatim>\<open>{direction: 1}\<close>.
\<close>

datatype zcl_options = NoOptions | ManufacturerOptions | SendImmediate | Direction1

text \<open>
  The object an operation is issued on: the \<^verbatim>\<open>entity\<close> argument of an encode converter,
  \<^verbatim>\<open>meta.device.getEndpoint(n)\<close>, or \<^verbatim>\<open>msg.endpoint\<close> of a decode converter.
\<close>

datatype target = Entity | DeviceEndpoint nat | MsgEndpoint

datatype zcl_op =
    Write target ident "(ident \<times> jsval \<times> nat option) list" zcl_options
  | Read target ident "ident list" zcl_options
  | Command target ident ident "(string \<times> jsval) list" zcl_options
  | CommandResponse target ident ident "(string \<times> jsval) list" zcl_options
  | ZclCommandBroadcast nat string ident ident "(string \<times> jsval) list" zcl_options
  | ReadResponse target ident nat "(string \<times> nat \<times> string \<times> jsval) list"

text \<open>Every \<^verbatim>\<open>throw\<close> of the source, and the rejection of an awaited operation.\<close>

datatype error =
    NotInLookup jsval "string list"
  | UnhandledKey string string
  | UnknownKey string
  | InvalidConfigurationLength nat
  | ValveAdaptationNotPossible
  | NotAnEndpoint
  | TypeError
  | RangeError
  | Rejected zcl_op

text \<open>
  An invocation yields the operations it issued, in order, and either the error it threw
  or its return value. A state patch is a list of property/value pairs; a converter that
  returns \<^verbatim>\<open>undefined\<close> yields \<open>None\<close>.
\<close>

type_synonym 'a outcome = "zcl_op list \<times> (error + 'a)"

type_synonym patch = "(string \<times> jsval) list"

text \<open>
  \<^verbatim>\<open>await entity.write(...)\<close>: the operation is issued; when the transport rejects it the
  rejection is thrown at the \<^verbatim>\<open>await\<close> and the rest of the function does not run.
\<close>

definition await :: "(zcl_op \<Rightarrow> bool) \<Rightarrow> zcl_op \<Rightarrow> 'a outcome \<Rightarrow> 'a outcome" where
  "await accepts z k = (if accepts z then (z # fst k, snd k) else ([z], Inl (Rejected z)))"

text \<open>
  \<^verbatim>\<open>endpoint.command(...).catch((error) => {})\<close>, not awaited: the operation is issued,
  the handler swallows a rejection, and the function goes on either way.
\<close>

definition fireAndForget :: "(zcl_op \<Rightarrow> bool) \<Rightarrow> zcl_op \<Rightarrow> 'a outcome \<Rightarrow> 'a outcome" where
  "fireAndForget accepts z k = (if accepts z then (z # fst k, snd k) else (z # fst k, snd k))"

text \<open>Running one awaited step after another: the first error ends the run.\<close>

definition andThen :: "unit outcome \<Rightarrow> 'a outcome \<Rightarrow> 'a outcome" where
  "andThen first k =
     (case snd first of
        Inl e \<Rightarrow> (fst first, Inl e)
      | Inr _ \<Rightarrow> (fst first @ fst k, snd k))"

text \<open>\<^verbatim>\<open>Object.keys(table)\<close>: the keys in insertion order.\<close>

definition keys :: "(string \<times> nat) list \<Rightarrow> string list" where
  "keys lookup = map fst lookup"

text \<open>
  Modelled from the spec: \<^verbatim>\<open>utils.getFromLookup\<close> lives in \<^verbatim>\<open>lib/utils\<close>, which is not
  among the source files. The spec describes the encoding of an enumeration as "symbolic
  string to protocol integer code via a static table", and a value outside the table
  "must fail with a descriptive error": the lookup returns the code of a string that is a
  key of the table and throws, naming the value and the table's keys, for anything else.
\<close>

definition getFromLookup :: "jsval \<Rightarrow> (string \<times> nat) list \<Rightarrow> error + nat" where
  "getFromLookup v lookup =
     (case v of
        JStr s \<Rightarrow>
          (case map_of lookup s of
             Some c \<Rightarrow> Inr c
           | None \<Rightarrow> Inl (NotInLookup v (keys lookup)))
      | _ \<Rightarrow> Inl (NotInLookup v (keys lookup)))"

text \<open>\<^verbatim>\<open>array[i]\<close>: \<^verbatim>\<open>undefined\<close> out of range.\<close>

definition index :: "string list \<Rightarrow> int \<Rightarrow> jsval" where
  "index xs i = (if 0 \<le> i \<and> nat i < length xs then JStr (xs ! nat i) else JUndefined)"

text \<open>
  \<^verbatim>\<open>Object.keys(table).find((key) => table[key] === code)\<close>: the first key carrying
  the code, \<^verbatim>\<open>undefined\<close> when there is none.
\<close>

definition findKey :: "(string \<times> nat) list \<Rightarrow> int \<Rightarrow> jsval" where
  "findKey lookup code =
     (case filter (\<lambda>k. map_option int (map_of lookup k) = Some code) (keys lookup) of
        [] \<Rightarrow> JUndefined
      | k # _ \<Rightarrow> JStr k)"

text \<open>JavaScript truthiness, as in \<^verbatim>\<open>if (value)\<close>.\<close>

definition truthy :: "jsval \<Rightarrow> bool" where
  "truthy v =
     (case v of
        JUndefined \<Rightarrow> False
      | JBool b \<Rightarrow> b
      | JNum n \<Rightarrow> n \<noteq> 0
      | JStr s \<Rightarrow> s \<noteq> []
      | JBuffer _ \<Rightarrow> True)"

text \<open>
  \<^verbatim>\<open>value == true\<close>: loose equality compares the number of the value with 1. The
  conversion of a string or an object to a number is the language's own \<open>ToNumber\<close>; it
  is a parameter here.
\<close>

definition looseEqTrue :: "(jsval \<Rightarrow> rat option) \<Rightarrow> jsval \<Rightarrow> bool" where
  "looseEqTrue toNumber v =
     (case v of
        JUndefined \<Rightarrow> False
      | JBool b \<Rightarrow> b
      | JNum n \<Rightarrow> n = 1
      | _ \<Rightarrow> toNumber v = Some 1)"

text \<open>Reading a property of an object: \<^verbatim>\<open>undefined\<close> when absent.\<close>

definition getProp :: "patch \<Rightarrow> string \<Rightarrow> jsval" where
  "getProp obj k = (case map_of obj k of None \<Rightarrow> JUndefined | Some v \<Rightarrow> v)"

section \<open>The outdoor siren (BSIR-EZ): \<^verbatim>\<open>tzLocal.rbshoszbeu\<close>\<close>

definition sirenVolume :: "(string \<times> nat) list" where
  "sirenVolume = [(''low'', 0x01), (''medium'', 0x02), (''high'', 0x03)]"

definition sirenLight :: "(string \<times> nat) list" where
  "sirenLight = [(''only_light'', 0x00), (''only_siren'', 0x01), (''siren_and_light'', 0x02)]"

definition outdoorSirenState :: "(string \<times> nat) list" where
  "outdoorSirenState = [(''ON'', 0x07), (''OFF'', 0x00)]"

definition sirenPowerSupply :: "(string \<times> nat) list" where
  "sirenPowerSupply =
     [(''solar_panel'', 0x01), (''ac_power_supply'', 0x02), (''dc_power_supply'', 0x03)]"

definition rbshoszbeu_key :: "string list" where
  "rbshoszbeu_key =
     [''light_delay'', ''siren_delay'', ''light_duration'', ''siren_duration'',
      ''siren_volume'', ''alarm_state'', ''power_source'', ''siren_and_light'']"

text \<open>
  \<^verbatim>\<open>convertSet\<close> is a chain of \<^verbatim>\<open>if (key === ...)\<close> blocks, each ending in a
  \<^verbatim>\<open>return\<close>; a key that matches none falls off the end and the function returns
  \<^verbatim>\<open>undefined\<close>.
\<close>

definition rbshoszbeu_convertSet ::
  "(zcl_op \<Rightarrow> bool) \<Rightarrow> string \<Rightarrow> jsval \<Rightarrow> patch option outcome" where
  "rbshoszbeu_convertSet accepts key v =
     (if key = ''light_delay'' then
        await accepts (Write Entity (ById 0x0502) [(ById 0xa004, v, Some 0x21)] ManufacturerOptions)
          ([], Inr (Some [(''light_delay'', v)]))
      else if key = ''siren_delay'' then
        await accepts (Write Entity (ById 0x0502) [(ById 0xa003, v, Some 0x21)] ManufacturerOptions)
          ([], Inr (Some [(''siren_delay'', v)]))
      else if key = ''light_duration'' then
        await accepts (Write Entity (ById 0x0502) [(ById 0xa005, v, Some 0x20)] ManufacturerOptions)
          ([], Inr (Some [(''light_duration'', v)]))
      else if key = ''siren_duration'' then
        await accepts (Write Entity (ById 0x0502) [(ById 0xa000, v, Some 0x20)] ManufacturerOptions)
          ([], Inr (Some [(''siren_duration'', v)]))
      else if key = ''siren_and_light'' then
        (case getFromLookup v sirenLight of
           Inl e \<Rightarrow> ([], Inl e)
         | Inr idx \<Rightarrow>
             await accepts
               (Write Entity (ById 0x0502) [(ById 0xa001, JNum (of_nat idx), Some 0x20)]
                  ManufacturerOptions)
               ([], Inr (Some [(''siren_and_light'', v)])))
      else if key = ''siren_volume'' then
        (case getFromLookup v sirenVolume of
           Inl e \<Rightarrow> ([], Inl e)
         | Inr idx \<Rightarrow>
             await accepts
               (Write Entity (ById 0x0502) [(ById 0xa002, JNum (of_nat idx), Some 0x20)]
                  ManufacturerOptions)
               ([], Inr (Some [(''siren_volume'', v)])))
      else if key = ''power_source'' then
        (case getFromLookup v sirenPowerSupply of
           Inl e \<Rightarrow> ([], Inl e)
         | Inr idx \<Rightarrow>
             await accepts
               (Write Entity (ById 0x0001) [(ById 0xa002, JNum (of_nat idx), Some 0x20)]
                  ManufacturerOptions)
               ([], Inr (Some [(''power_source'', v)])))
      else if key = ''alarm_state'' then
        (case getFromLookup v outdoorSirenState of
           Inl e \<Rightarrow> ([], Inl e)
         | Inr idx \<Rightarrow>
             if idx = 0 then
               await accepts
                 (Command (DeviceEndpoint 1) (ById 0x0502) (ById 0xf0) [(''data'', JNum 0)]
                    ManufacturerOptions)
                 ([], Inr (Some [(''alarm_state'', v)]))
             else
               await accepts
                 (Command (DeviceEndpoint 1) (ById 0x0502) (ById 0xf0) [(''data'', JNum 7)]
                    ManufacturerOptions)
                 ([], Inr (Some [(''alarm_state'', v)])))
      else ([], Inr None))"

text \<open>\<^verbatim>\<open>convertGet\<close> is a \<^verbatim>\<open>switch\<close> whose \<^verbatim>\<open>default\<close> throws.\<close>

definition rbshoszbeu_convertGet :: "(zcl_op \<Rightarrow> bool) \<Rightarrow> string \<Rightarrow> unit outcome" where
  "rbshoszbeu_convertGet accepts key =
     (if key = ''light_delay'' then
        await accepts (Read Entity (ById 0x0502) [ById 0xa004] ManufacturerOptions) ([], Inr ())
      else if key = ''siren_delay'' then
        await accepts (Read Entity (ById 0x0502) [ById 0xa003] ManufacturerOptions) ([], Inr ())
      else if key = ''light_duration'' then
        await accepts (Read Entity (ById 0x0502) [ById 0xa005] ManufacturerOptions) ([], Inr ())
      else if key = ''siren_duration'' then
        await accepts (Read Entity (ById 0x0502) [ById 0xa000] ManufacturerOptions) ([], Inr ())
      else if key = ''siren_and_light'' then
        await accepts (Read Entity (ById 0x0502) [ById 0xa001] ManufacturerOptions) ([], Inr ())
      else if key = ''siren_volume'' then
        await accepts (Read Entity (ById 0x0502) [ById 0xa002] ManufacturerOptions) ([], Inr ())
      else if key = ''alarm_state'' then
        await accepts (Read Entity (ById 0x0502) [ById 0xf0] ManufacturerOptions) ([], Inr ())
      else ([], Inl (UnhandledKey ''toZigbee.rbshoszbeu.convertGet'' key)))"

section \<open>Universal Switch II (BHI-US): the LED configuration, \<^verbatim>\<open>tzLocal.bhius_config\<close>\<close>

definition buttonMap :: "(string \<times> nat) list" where
  "buttonMap =
     [(''config_led_top_left_press'', 0x10),
      (''config_led_top_right_press'', 0x11),
      (''config_led_bottom_left_press'', 0x12),
      (''config_led_bottom_right_press'', 0x13),
      (''config_led_top_left_longpress'', 0x20),
      (''config_led_top_right_longpress'', 0x21),
      (''config_led_bottom_left_longpress'', 0x22),
      (''config_led_bottom_right_longpress'', 0x23)]"

text \<open>\<^verbatim>\<open>key: Object.keys(buttonMap)\<close>\<close>

definition bhius_config_key :: "string list" where
  "bhius_config_key = keys buttonMap"

text \<open>
  \<^verbatim>\<open>Buffer.from(s, 'hex')\<close> decodes pairs of hexadecimal digits and stops at the first
  pair that is not one; a trailing single character is dropped.
\<close>

definition hexDigit :: "char \<Rightarrow> nat option" where
  "hexDigit c =
     (let n = of_char c :: nat in
      if 48 \<le> n \<and> n \<le> 57 then Some (n - 48)
      else if 97 \<le> n \<and> n \<le> 102 then Some (n - 87)
      else if 65 \<le> n \<and> n \<le> 70 then Some (n - 55)
      else None)"

fun hexDecode :: "string \<Rightarrow> nat list" where
  "hexDecode (a # b # rest) =
     (case (hexDigit a, hexDigit b) of
        (Some x, Some y) \<Rightarrow> (16 * x + y) # hexDecode rest
      | _ \<Rightarrow> [])"
| "hexDecode _ = []"

text \<open>
  \<^verbatim>\<open>Buffer.from(value as string, 'hex')\<close> on an untyped value: a string is decoded, a
  buffer is copied, and a number, a boolean or \<^verbatim>\<open>undefined\<close> is a \<^verbatim>\<open>TypeError\<close>.
\<close>

definition bufferFromHex :: "jsval \<Rightarrow> error + nat list" where
  "bufferFromHex v =
     (case v of
        JStr s \<Rightarrow> Inr (hexDecode s)
      | JBuffer b \<Rightarrow> Inr b
      | _ \<Rightarrow> Inl TypeError)"

definition bhius_config_convertGet :: "(zcl_op \<Rightarrow> bool) \<Rightarrow> string \<Rightarrow> unit outcome" where
  "bhius_config_convertGet accepts key =
     (case map_of buttonMap key of
        None \<Rightarrow> ([], Inl (UnknownKey key))
      | Some attr \<Rightarrow>
          await accepts (Read Entity (ByName ''boschSpecific'') [ById attr] ManufacturerOptions)
            ([], Inr ()))"

definition bhius_config_convertSet ::
  "(zcl_op \<Rightarrow> bool) \<Rightarrow> string \<Rightarrow> jsval \<Rightarrow> patch option outcome" where
  "bhius_config_convertSet accepts key v =
     (case map_of buttonMap key of
        None \<Rightarrow> ([], Inr None)
      | Some attr \<Rightarrow>
          (case bufferFromHex v of
             Inl e \<Rightarrow> ([], Inl e)
           | Inr buffer \<Rightarrow>
               if length buffer \<noteq> 9 then ([], Inl (InvalidConfigurationLength (length buffer)))
               else
                 await accepts
                   (Write Entity (ByName ''boschSpecific'') [(ById attr, JBuffer buffer, Some 65)]
                      ManufacturerOptions)
                   ([], Inr (Some [(key, v)]))))"

section \<open>Radiator thermostat II: \<^verbatim>\<open>boschModernExtend.valveAdaptProcess\<close>\<close>

definition adaptationStatus :: "(string \<times> nat) list" where
  "adaptationStatus =
     [(''none'', 0x00), (''ready_to_calibrate'', 0x01), (''calibration_in_progress'', 0x02),
      (''error'', 0x03), (''success'', 0x04)]"

text \<open>
  \<^verbatim>\<open>meta.state\<close> is the known state of the device; \<^verbatim>\<open>switch (adaptStatus)\<close> has the
  cases \<^verbatim>\<open>adaptationStatus.ready_to_calibrate\<close> and \<^verbatim>\<open>adaptationStatus.error\<close>, and a
  \<^verbatim>\<open>default\<close> that throws.
\<close>

definition valveAdaptProcess_convertSet ::
  "(jsval \<Rightarrow> rat option) \<Rightarrow> (zcl_op \<Rightarrow> bool) \<Rightarrow> patch \<Rightarrow> jsval \<Rightarrow> patch option outcome" where
  "valveAdaptProcess_convertSet toNumber accepts metaState v =
     (if looseEqTrue toNumber v then
        (case getFromLookup (getProp metaState ''valve_adapt_status'') adaptationStatus of
           Inl e \<Rightarrow> ([], Inl e)
         | Inr adaptStatus \<Rightarrow>
             if Some adaptStatus = map_of adaptationStatus ''ready_to_calibrate''
                \<or> Some adaptStatus = map_of adaptationStatus ''error''
             then
               await accepts
                 (Command Entity (ByName ''hvacThermostat'') (ByName ''calibrateValve'') []
                    ManufacturerOptions)
                 ([], Inr (Some [(''valve_adapt_process'', v)]))
             else ([], Inl ValveAdaptationNotPossible))
      else ([], Inr (Some [(''valve_adapt_process'', v)])))"

section \<open>Radiator thermostat II: \<^verbatim>\<open>boschModernExtend.ignoreDst\<close>\<close>


section \<open>Twinguard: \<^verbatim>\<open>boschModernExtend.twinguard\<close>\<close>

definition smokeSensitivity :: "(string \<times> nat) list" where
  "smokeSensitivity = [(''low'', 0x03), (''medium'', 0x02), (''high'', 0x01)]"

definition twinguard_sirenState :: "(string \<times> nat) list" where
  "twinguard_sirenState =
     [(''stop'', 0x00), (''pre_alarm'', 0x01), (''fire'', 0x02), (''burglar'', 0x03)]"

definition stateOffOn :: "(string \<times> nat) list" where
  "stateOffOn = [(''OFF'', 0x00), (''ON'', 0x01)]"

text \<open>The \<^verbatim>\<open>entity\<close> argument of an encode converter is an endpoint or a group.\<close>

datatype entity = Endpoint nat | Group nat

text \<open>
  Modelled from the spec: \<^verbatim>\<open>utils.assertEndpoint\<close> is not among the source files. The
  encode contract of the spec takes a "target addressable entity (endpoint or group)"; the
  assertion lets an endpoint pass and throws for a group.
\<close>

definition assertEndpoint :: "entity \<Rightarrow> error option" where
  "assertEndpoint ent = (case ent of Endpoint _ \<Rightarrow> None | Group _ \<Rightarrow> Some NotAnEndpoint)"

subsection \<open>The decode converters\<close>

text \<open>
  The payload of an attribute report or read response of these clusters maps attribute
  names to the integers the device sent (the attributes are declared \<^verbatim>\<open>UINT16\<close>,
  \<^verbatim>\<open>INT16\<close> or \<^verbatim>\<open>BITMAP8\<close>).
\<close>

type_synonym attrs = "(string \<times> int) list"

text \<open>Cluster \<^verbatim>\<open>twinguardSmokeDetector\<close>: the key list of the table is indexed by the code.\<close>

definition twinguardSmokeDetector_convert :: "attrs \<Rightarrow> patch" where
  "twinguardSmokeDetector_convert d =
     (case map_of d ''sensitivity'' of
        None \<Rightarrow> []
      | Some code \<Rightarrow> [(''sensitivity'', index (keys smokeSensitivity) code)])"

text \<open>Cluster \<^verbatim>\<open>twinguardOptions\<close>.\<close>

definition twinguardOptions_convert :: "attrs \<Rightarrow> patch" where
  "twinguardOptions_convert d =
     (case map_of d ''pre_alarm'' of
        None \<Rightarrow> []
      | Some code \<Rightarrow> [(''pre_alarm'', index (keys stateOffOn) code)])"

text \<open>Cluster \<^verbatim>\<open>twinguardSetup\<close>.\<close>

definition twinguardSetup_convert :: "attrs \<Rightarrow> patch" where
  "twinguardSetup_convert d =
     (case map_of d ''heartbeat'' of
        None \<Rightarrow> []
      | Some code \<Rightarrow> [(''heartbeat'', index (keys stateOffOn) code)])"

text \<open>
  Cluster \<^verbatim>\<open>twinguardMeasurements\<close>. The factors start at 6 and 2 and are replaced by the
  first band of the \<^verbatim>\<open>if\<close>/\<^verbatim>\<open>else if\<close> chain that holds the air purity value.
\<close>

definition airpurityFactors :: "int \<Rightarrow> int \<times> int" where
  "airpurityFactors iaq =
     (if iaq \<ge> 51 \<and> iaq \<le> 100 then (10, 4)
      else if iaq \<ge> 101 \<and> iaq \<le> 150 then (20, 4)
      else if iaq \<ge> 151 \<and> iaq \<le> 200 then (50, 4)
      else if iaq \<ge> 201 \<and> iaq \<le> 250 then (100, 4)
      else if iaq \<ge> 251 then (100, 4)
      else (6, 2))"

text \<open>
  \<^verbatim>\<open>utils.toNumber\<close>, \<^verbatim>\<open>utils.isInRange\<close> and \<^verbatim>\<open>utils.precisionRound\<close> are not among the
  source files. \<^verbatim>\<open>toNumber\<close> turns its argument into a number and is the identity on the
  integers of a payload; the range test and the rounding are parameters.
\<close>

definition twinguardMeasurements_convert ::
  "(rat \<Rightarrow> rat \<Rightarrow> rat \<Rightarrow> bool) \<Rightarrow> (rat \<Rightarrow> nat \<Rightarrow> rat) \<Rightarrow> attrs \<Rightarrow> patch" where
  "twinguardMeasurements_convert isInRange precisionRound d =
     (case map_of d ''humidity'' of
        None \<Rightarrow> []
      | Some h \<Rightarrow>
          (let humidity = of_int h / 100
           in if isInRange 0 100 humidity then [(''humidity'', JNum humidity)] else []))
     @ (case map_of d ''airpurity'' of
          None \<Rightarrow> []
        | Some iaq \<Rightarrow>
            (let factorVoc = fst (airpurityFactors iaq); factorCo2 = snd (airpurityFactors iaq)
             in [(''aqi'', JNum (of_int iaq)),
                 (''voc'', JNum (of_int (iaq * factorVoc))),
                 (''co2'', JNum (of_int (iaq * factorCo2 + 400)))]))
     @ (case map_of d ''temperature'' of
          None \<Rightarrow> []
        | Some t \<Rightarrow> [(''temperature'', JNum (of_int t / 100))])
     @ (case map_of d ''illuminance_lux'' of
          None \<Rightarrow> []
        | Some l \<Rightarrow> [(''illuminance_lux'', JNum (precisionRound (of_int l / 2) 2))])
     @ (case map_of d ''battery'' of
          None \<Rightarrow> []
        | Some b \<Rightarrow> [(''battery'', JNum (precisionRound (of_int b / 2) 2))])"



subsection \<open>The encode converter\<close>

definition twinguard_key :: "string list" where
  "twinguard_key = [''sensitivity'', ''pre_alarm'', ''self_test'', ''alarm'', ''heartbeat'']"

definition twinguard_convertSet ::
  "(zcl_op \<Rightarrow> bool) \<Rightarrow> entity \<Rightarrow> string \<Rightarrow> jsval \<Rightarrow> patch option outcome" where
  "twinguard_convertSet accepts ent key v =
     (if key = ''sensitivity'' then
        (case getFromLookup v smokeSensitivity of
           Inl e \<Rightarrow> ([], Inl e)
         | Inr idx \<Rightarrow>
             await accepts
               (Write Entity (ByName ''twinguardSmokeDetector'')
                  [(ByName ''sensitivity'', JNum (of_nat idx), None)] NoOptions)
               ([], Inr (Some [(''sensitivity'', v)])))
      else if key = ''pre_alarm'' then
        (case getFromLookup v stateOffOn of
           Inl e \<Rightarrow> ([], Inl e)
         | Inr idx \<Rightarrow>
             await accepts
               (Write Entity (ByName ''twinguardOptions'')
                  [(ByName ''pre_alarm'', JNum (of_nat idx), None)] NoOptions)
               ([], Inr (Some [(''pre_alarm'', v)])))
      else if key = ''heartbeat'' then
        (case getFromLookup v stateOffOn of
           Inl e \<Rightarrow> ([], Inl e)
         | Inr idx \<Rightarrow>
             await accepts
               (Write (DeviceEndpoint 12) (ByName ''twinguardSetup'')
                  [(ByName ''heartbeat'', JNum (of_nat idx), None)] NoOptions)
               ([], Inr (Some [(''heartbeat'', v)])))
      else if key = ''self_test'' then
        (if truthy v then
           await accepts
             (Command Entity (ByName ''twinguardSmokeDetector'') (ByName ''initiateTestMode'') []
                NoOptions)
             ([], Inr None)
         else ([], Inr None))
      else if key = ''alarm'' then
        (case getFromLookup v twinguard_sirenState of
           Inl e \<Rightarrow> ([], Inl e)
         | Inr idx \<Rightarrow>
             (case assertEndpoint ent of
                Some e \<Rightarrow> ([], Inl e)
              | None \<Rightarrow>
                  if idx = 0x00 then
                    await accepts
                      (CommandResponse Entity (ByName ''genAlarms'') (ByName ''alarm'')
                         [(''alarmcode'', JNum 0x16), (''clusterid'', JNum 0xe000)] Direction1)
                      (await accepts
                         (CommandResponse Entity (ByName ''genAlarms'') (ByName ''alarm'')
                            [(''alarmcode'', JNum 0x14), (''clusterid'', JNum 0xe000)] Direction1)
                         (await accepts
                            (Command (DeviceEndpoint 12) (ByName ''twinguardAlarm'')
                               (ByName ''burglarAlarm'') [(''data'', JNum 0x00)] NoOptions)
                            ([], Inr None)))
                  else if idx = 0x01 then
                    await accepts
                      (CommandResponse Entity (ByName ''genAlarms'') (ByName ''alarm'')
                         [(''alarmcode'', JNum 0x11), (''clusterid'', JNum 0xe000)] Direction1)
                      ([], Inr (Some [(''siren_state'', JStr ''pre_alarm'')]))
                  else if idx = 0x02 then
                    await accepts
                      (CommandResponse Entity (ByName ''genAlarms'') (ByName ''alarm'')
                         [(''alarmcode'', JNum 0x10), (''clusterid'', JNum 0xe000)] Direction1)
                      ([], Inr (Some [(''siren_state'', JStr ''fire'')]))
                  else if idx = 0x03 then
                    await accepts
                      (Command (DeviceEndpoint 12) (ByName ''twinguardAlarm'')
                         (ByName ''burglarAlarm'') [(''data'', JNum 0x01)] NoOptions)
                      ([], Inr None)
                  else ([], Inr None)))
      else ([], Inr None))"

definition twinguard_convertGet :: "(zcl_op \<Rightarrow> bool) \<Rightarrow> string \<Rightarrow> unit outcome" where
  "twinguard_convertGet accepts key =
     (if key = ''sensitivity'' then
        await accepts
          (Read Entity (ByName ''twinguardSmokeDetector'') [ByName ''sensitivity''] NoOptions)
          ([], Inr ())
      else if key = ''pre_alarm'' then
        await accepts (Read Entity (ByName ''twinguardOptions'') [ByName ''pre_alarm''] NoOptions)
          ([], Inr ())
      else if key = ''heartbeat'' then
        await accepts
          (Read (DeviceEndpoint 12) (ByName ''twinguardSetup'') [ByName ''heartbeat''] NoOptions)
          ([], Inr ())
      else if key = ''alarm'' \<or> key = ''self_test'' then
        await accepts
          (Read (DeviceEndpoint 12) (ByName ''twinguardAlarm'') [ByName ''alarm_status''] NoOptions)
          ([], Inr ())
      else ([], Inl (UnhandledKey ''boschExtend.twinguard.toZigbee.convertGet'' key)))"

section \<open>Smoke alarm II: \<^verbatim>\<open>boschModernExtend.smokeAlarm\<close> and \<^verbatim>\<open>broadcastAlarm\<close>\<close>

definition smokeAlarm :: "(string \<times> nat) list" where
  "smokeAlarm = [(''OFF'', 0x0000), (''ON'', 0x3c00)]"

definition burglarAlarm :: "(string \<times> nat) list" where
  "burglarAlarm = [(''OFF'', 0x0001), (''ON'', 0xb401)]"

definition broadcast_sirenState :: "(string \<times> nat) list" where
  "broadcast_sirenState =
     [(''smoke_off'', 0x0000), (''smoke_on'', 0x3c00), (''burglar_off'', 0x0001),
      (''burglar_on'', 0xb401)]"

definition smokeAlarm_convertSet ::
  "(zcl_op \<Rightarrow> bool) \<Rightarrow> string \<Rightarrow> jsval \<Rightarrow> patch option outcome" where
  "smokeAlarm_convertSet accepts key v =
     (if key = ''alarm_smoke'' then
        (case getFromLookup v smokeAlarm of
           Inl e \<Rightarrow> ([], Inl e)
         | Inr idx \<Rightarrow>
             await accepts
               (Command Entity (ByName ''ssIasZone'') (ByName ''boschSmokeAlarmSiren'')
                  [(''data'', JNum (of_nat idx))] ManufacturerOptions)
               ([], Inr (Some [(''alarm_smoke'', v)])))
      else if key = ''alarm_burglar'' then
        (case getFromLookup v burglarAlarm of
           Inl e \<Rightarrow> ([], Inl e)
         | Inr idx \<Rightarrow>
             await accepts
               (Command Entity (ByName ''ssIasZone'') (ByName ''boschSmokeAlarmSiren'')
                  [(''data'', JNum (of_nat idx))] ManufacturerOptions)
               ([], Inr (Some [(''alarm_burglar'', v)])))
      else ([], Inr None))"

definition smokeAlarm_key :: "string list" where
  "smokeAlarm_key = [''alarm_smoke'', ''alarm_burglar'']"

text \<open>
  The \<^verbatim>\<open>switch\<close> of \<^verbatim>\<open>convertGet\<close> has the cases \<^verbatim>\<open>alarm_smoke\<close>, \<^verbatim>\<open>alarm_burglar\<close> and
  \<^verbatim>\<open>zone_status\<close>, which share one read, and a \<^verbatim>\<open>default\<close> that throws.
\<close>

definition smokeAlarm_convertGet :: "(zcl_op \<Rightarrow> bool) \<Rightarrow> string \<Rightarrow> unit outcome" where
  "smokeAlarm_convertGet accepts key =
     (if key = ''alarm_smoke'' \<or> key = ''alarm_burglar'' \<or> key = ''zone_status'' then
        await accepts (Read Entity (ByName ''ssIasZone'') [ByName ''zoneStatus''] NoOptions)
          ([], Inr ())
      else ([], Inl (UnhandledKey ''boschExtend.smokeAlarm.toZigbee.convertGet'' key)))"

text \<open>
  The broadcast goes to endpoint 255 of \<^verbatim>\<open>ZSpec.BroadcastAddress.SLEEPY\<close>, on the cluster
  given by number, \<^verbatim>\<open>Zcl.Clusters.ssIasZone.ID\<close>: the IAS zone cluster, 0x0500 in the ZCL.
\<close>

definition broadcastAlarm_convertSet ::
  "(zcl_op \<Rightarrow> bool) \<Rightarrow> entity \<Rightarrow> string \<Rightarrow> jsval \<Rightarrow> patch option outcome" where
  "broadcastAlarm_convertSet accepts ent key v =
     (if key = ''broadcast_alarm'' then
        (case getFromLookup v broadcast_sirenState of
           Inl e \<Rightarrow> ([], Inl e)
         | Inr idx \<Rightarrow>
             (case assertEndpoint ent of
                Some e \<Rightarrow> ([], Inl e)
              | None \<Rightarrow>
                  await accepts
                    (ZclCommandBroadcast 255 ''SLEEPY'' (ById 0x0500)
                       (ByName ''boschSmokeAlarmSiren'')
                       [(''data'', JNum (of_nat idx))] ManufacturerOptions)
                    ([], Inr None)))
      else ([], Inr None))"

section \<open>Light/shutter control unit II (BMCT-SLZ)\<close>

definition stateDeviceMode :: "(string \<times> nat) list" where
  "stateDeviceMode = [(''light'', 0x04), (''shutter'', 0x01), (''disabled'', 0x00)]"

definition stateMotor :: "(string \<times> nat) list" where
  "stateMotor = [(''stopped'', 0x00), (''opening'', 0x01), (''closing'', 0x02)]"

definition stateSwitchType :: "(string \<times> nat) list" where
  "stateSwitchType =
     [(''button'', 0x01), (''button_key_change'', 0x02), (''rocker_switch'', 0x03),
      (''rocker_switch_key_change'', 0x04)]"

subsection \<open>The encode converter of \<^verbatim>\<open>boschModernExtend.bmct\<close>\<close>

text \<open>
  \<^verbatim>\<open>tz.cover_state\<close> and \<^verbatim>\<open>tz.on_off\<close> are defined in \<^verbatim>\<open>converters/toZigbee\<close>, which is
  not among the source files; what their \<^verbatim>\<open>convertSet\<close> does is a parameter. The blocks
  for \<^verbatim>\<open>state\<close> and \<^verbatim>\<open>on_time\<close> do not return, so the chain goes on after them.
\<close>

definition bmct_convertSet ::
  "(zcl_op \<Rightarrow> bool) \<Rightarrow> (string \<Rightarrow> jsval \<Rightarrow> unit outcome) \<Rightarrow> (string \<Rightarrow> jsval \<Rightarrow> unit outcome)
     \<Rightarrow> entity \<Rightarrow> string \<Rightarrow> jsval \<Rightarrow> patch option outcome" where
  "bmct_convertSet accepts cover_state on_off ent key v =
     andThen
       (if key = ''state'' then
          (if (case ent of Endpoint n \<Rightarrow> n = 1 | Group _ \<Rightarrow> False) then cover_state key v
           else on_off key v)
        else ([], Inr ()))
       (andThen
          (if key = ''on_time'' \<or> key = ''on_wait_time'' then
             (if (case ent of Endpoint n \<Rightarrow> n \<noteq> 1 | Group _ \<Rightarrow> False) then on_off key v
              else ([], Inr ()))
           else ([], Inr ()))
          (if key = ''device_mode'' then
             (case getFromLookup v stateDeviceMode of
                Inl e \<Rightarrow> ([], Inl e)
              | Inr idx \<Rightarrow>
                  await accepts
                    (Write Entity (ByName ''boschSpecific'')
                       [(ByName ''deviceMode'', JNum (of_nat idx), None)] NoOptions)
                    (await accepts
                       (Read Entity (ByName ''boschSpecific'') [ByName ''deviceMode''] NoOptions)
                       ([], Inr (Some [(''device_mode'', v)]))))
           else if key = ''switch_type'' then
             (case getFromLookup v stateSwitchType of
                Inl e \<Rightarrow> ([], Inl e)
              | Inr idx \<Rightarrow>
                  await accepts
                    (Write Entity (ByName ''boschSpecific'')
                       [(ByName ''switchType'', JNum (of_nat idx), None)] NoOptions)
                    ([], Inr (Some [(''switch_type'', v)])))
           else if key = ''child_lock'' then
             (case getFromLookup v stateOffOn of
                Inl e \<Rightarrow> ([], Inl e)
              | Inr idx \<Rightarrow>
                  await accepts
                    (Write Entity (ByName ''boschSpecific'')
                       [(ByName ''childLock'', JNum (of_nat idx), None)] NoOptions)
                    ([], Inr (Some [(''child_lock'', v)])))
           else ([], Inr None)))"

definition bmct_key :: "string list" where
  "bmct_key =
     [''device_mode'', ''switch_type'', ''child_lock'', ''state'', ''on_time'', ''off_wait_time'']"

definition bmct_convertGet :: "(zcl_op \<Rightarrow> bool) \<Rightarrow> entity \<Rightarrow> string \<Rightarrow> unit outcome" where
  "bmct_convertGet accepts ent key =
     (if key = ''state'' \<or> key = ''on_time'' \<or> key = ''off_wait_time'' then
        (if (case ent of Endpoint n \<Rightarrow> n \<noteq> 1 | Group _ \<Rightarrow> False) then
           await accepts (Read Entity (ByName ''genOnOff'') [ByName ''onOff''] NoOptions)
             ([], Inr ())
         else ([], Inr ()))
      else if key = ''device_mode'' then
        await accepts (Read Entity (ByName ''boschSpecific'') [ByName ''deviceMode''] NoOptions)
          ([], Inr ())
      else if key = ''switch_type'' then
        await accepts (Read Entity (ByName ''boschSpecific'') [ByName ''switchType''] NoOptions)
          ([], Inr ())
      else if key = ''child_lock'' then
        await accepts (Read Entity (ByName ''boschSpecific'') [ByName ''childLock''] NoOptions)
          ([], Inr ())
      else ([], Inl (UnhandledKey ''boschExtend.bmct.toZigbee.convertGet'' key)))"

subsection \<open>The calibration converter of \<^verbatim>\<open>boschModernExtend.bmct\<close>\<close>

text \<open>
  \<^verbatim>\<open>utils.toNumber(value, name)\<close> is not among the source files: it yields the number of
  the value or throws, and is a parameter. The number times ten is written, the number is
  returned in the patch.
\<close>

definition bmct_calibration_key :: "string list" where
  "bmct_calibration_key =
     [''calibration_closing_time'', ''calibration_opening_time'',
      ''calibration_button_hold_time'', ''calibration_motor_start_delay'']"

definition bmct_calibration_convertSet ::
  "(zcl_op \<Rightarrow> bool) \<Rightarrow> (jsval \<Rightarrow> string \<Rightarrow> error + rat) \<Rightarrow> string \<Rightarrow> jsval
     \<Rightarrow> patch option outcome" where
  "bmct_calibration_convertSet accepts toNumber key v =
     (if key = ''calibration_opening_time'' then
        (case toNumber v ''calibration_opening_time'' of
           Inl err \<Rightarrow> ([], Inl err)
         | Inr number \<Rightarrow>
             await accepts
               (Write Entity (ByName ''boschSpecific'')
                  [(ByName ''calibrationOpeningTime'', JNum (number * 10), None)] NoOptions)
               ([], Inr (Some [(''calibration_opening_time'', JNum number)])))
      else if key = ''calibration_closing_time'' then
        (case toNumber v ''calibration_closing_time'' of
           Inl err \<Rightarrow> ([], Inl err)
         | Inr number \<Rightarrow>
             await accepts
               (Write Entity (ByName ''boschSpecific'')
                  [(ByName ''calibrationClosingTime'', JNum (number * 10), None)] NoOptions)
               ([], Inr (Some [(''calibration_closing_time'', JNum number)])))
      else if key = ''calibration_button_hold_time'' then
        (case toNumber v ''calibration_button_hold_time'' of
           Inl err \<Rightarrow> ([], Inl err)
         | Inr number \<Rightarrow>
             await accepts
               (Write Entity (ByName ''boschSpecific'')
                  [(ByName ''calibrationButtonHoldTime'', JNum (number * 10), None)] NoOptions)
               ([], Inr (Some [(''calibration_button_hold_time'', JNum number)])))
      else if key = ''calibration_motor_start_delay'' then
        (case toNumber v ''calibration_motor_start_delay'' of
           Inl err \<Rightarrow> ([], Inl err)
         | Inr number \<Rightarrow>
             await accepts
               (Write Entity (ByName ''boschSpecific'')
                  [(ByName ''calibrationMotorStartDelay'', JNum (number * 10), None)] NoOptions)
               ([], Inr (Some [(''calibration_motor_start_delay'', JNum number)])))
      else ([], Inr None))"

definition bmct_calibration_convertGet :: "(zcl_op \<Rightarrow> bool) \<Rightarrow> string \<Rightarrow> unit outcome" where
  "bmct_calibration_convertGet accepts key =
     (if key = ''calibration_opening_time'' then
        await accepts
          (Read Entity (ByName ''boschSpecific'') [ByName ''calibrationOpeningTime''] NoOptions)
          ([], Inr ())
      else if key = ''calibration_closing_time'' then
        await accepts
          (Read Entity (ByName ''boschSpecific'') [ByName ''calibrationClosingTime''] NoOptions)
          ([], Inr ())
      else if key = ''calibration_button_hold_time'' then
        await accepts
          (Read Entity (ByName ''boschSpecific'') [ByName ''calibrationButtonHoldTime''] NoOptions)
          ([], Inr ())
      else if key = ''calibration_motor_start_delay'' then
        await accepts
          (Read Entity (ByName ''boschSpecific'') [ByName ''calibrationMotorStartDelay''] NoOptions)
          ([], Inr ())
      else ([], Inl (UnhandledKey ''boschExtend.bmct.toZigbee.convertGet'' key)))"

subsection \<open>The exposed properties of the BMCT-SLZ profile\<close>

text \<open>
  A descriptor is built by a preset or a constructor of \<^verbatim>\<open>lib/exposes\<close> (not among the
  source files) and refined by \<^verbatim>\<open>with...\<close> calls; it is kept here as the constructor
  with its arguments and the value of each refinement.
\<close>

datatype access = ea_STATE | ea_SET | ea_STATE_SET | ea_STATE_GET | ea_ALL

datatype feature =
    e_switch
  | e_power_on_behavior
  | e_cover_position
  | e_linkquality
  | e_enum string access "string list"
  | e_binary string access jsval jsval
  | e_numeric string access

record expose =
  ex_feature :: feature
  ex_endpoint :: "string option"
  ex_description :: "string option"
  ex_unit :: "string option"
  ex_valueMin :: "rat option"
  ex_valueMax :: "rat option"
  ex_valueStep :: "rat option"

definition preset :: "feature \<Rightarrow> expose" where
  "preset f =
     \<lparr>ex_feature = f, ex_endpoint = None, ex_description = None, ex_unit = None,
      ex_valueMin = None, ex_valueMax = None, ex_valueStep = None\<rparr>"

definition withEndpoint :: "string \<Rightarrow> expose \<Rightarrow> expose" where
  "withEndpoint n x = x\<lparr>ex_endpoint := Some n\<rparr>"

definition withDescription :: "string \<Rightarrow> expose \<Rightarrow> expose" where
  "withDescription d x = x\<lparr>ex_description := Some d\<rparr>"

definition withUnit :: "string \<Rightarrow> expose \<Rightarrow> expose" where
  "withUnit u x = x\<lparr>ex_unit := Some u\<rparr>"

definition withValueMin :: "rat \<Rightarrow> expose \<Rightarrow> expose" where
  "withValueMin r x = x\<lparr>ex_valueMin := Some r\<rparr>"

definition withValueMax :: "rat \<Rightarrow> expose \<Rightarrow> expose" where
  "withValueMax r x = x\<lparr>ex_valueMax := Some r\<rparr>"

definition withValueStep :: "rat \<Rightarrow> expose \<Rightarrow> expose" where
  "withValueStep r x = x\<lparr>ex_valueStep := Some r\<rparr>"

text \<open>\<^verbatim>\<open>x.withA(..).withB(..)\<close>: the refinements are applied from left to right.\<close>

definition chain :: "expose \<Rightarrow> (expose \<Rightarrow> expose) list \<Rightarrow> expose" where
  "chain x ws = fold id ws x"

definition commonExposes :: "expose list" where
  "commonExposes =
     [chain (preset (e_enum ''switch_type'' ea_ALL (keys stateSwitchType)))
        [withDescription ''Module controlled by a rocker switch or a button''],
      preset e_linkquality]"

definition lightExposes :: "expose list" where
  "lightExposes =
     [chain (preset e_switch) [withEndpoint ''left''],
      chain (preset e_switch) [withEndpoint ''right''],
      chain (preset e_power_on_behavior) [withEndpoint ''left''],
      chain (preset e_power_on_behavior) [withEndpoint ''right''],
      chain (preset (e_binary ''child_lock'' ea_ALL (JStr ''ON'') (JStr ''OFF'')))
        [withEndpoint ''left'', withDescription ''Enable/Disable child lock''],
      chain (preset (e_binary ''child_lock'' ea_ALL (JStr ''ON'') (JStr ''OFF'')))
        [withEndpoint ''right'', withDescription ''Enable/Disable child lock'']]"

definition coverExposes :: "expose list" where
  "coverExposes =
     [preset e_cover_position,
      chain (preset (e_enum ''motor_state'' ea_STATE (keys stateMotor)))
        [withDescription ''Current shutter motor state''],
      chain (preset (e_binary ''child_lock'' ea_ALL (JStr ''ON'') (JStr ''OFF'')))
        [withDescription ''Enable/Disable child lock''],
      chain (preset (e_numeric ''calibration_closing_time'' ea_ALL))
        [withUnit ''s'', withDescription ''Calibrate shutter closing time'',
         withValueMin 1, withValueMax 90, withValueStep (1 / 10)],
      chain (preset (e_numeric ''calibration_opening_time'' ea_ALL))
        [withUnit ''s'', withDescription ''Calibrate shutter opening time'',
         withValueMin 1, withValueMax 90, withValueStep (1 / 10)],
      chain (preset (e_numeric ''calibration_button_hold_time'' ea_ALL))
        [withUnit ''s'', withDescription ''Time to hold for long press'',
         withValueMin (1 / 10), withValueMax 2, withValueStep (1 / 10)],
      chain (preset (e_numeric ''calibration_motor_start_delay'' ea_ALL))
        [withUnit ''s'', withDescription ''Delay between command and motor start'',
         withValueMin 0, withValueMax 20, withValueStep (1 / 10)]]"

text \<open>The list returned when there is no device, or its mode is neither light nor shutter.\<close>

definition modeExposes :: "expose list" where
  "modeExposes =
     [chain (preset (e_enum ''device_mode'' ea_ALL (keys stateDeviceMode)))
        [withDescription ''Device mode''],
      preset e_linkquality]"

text \<open>
  A device holds its endpoints by number; an endpoint holds the attribute values last
  seen, by cluster and attribute name. \<^verbatim>\<open>device.getEndpoint(1)\<close> of a device without that
  endpoint is \<^verbatim>\<open>undefined\<close>, and the call on it a \<^verbatim>\<open>TypeError\<close>.
\<close>

type_synonym endpoint_attrs = "((string \<times> string) \<times> int) list"

type_synonym device = "(nat \<times> endpoint_attrs) list"

definition getEndpoint :: "device \<Rightarrow> nat \<Rightarrow> endpoint_attrs option" where
  "getEndpoint dev n = map_of dev n"

definition getClusterAttributeValue :: "endpoint_attrs \<Rightarrow> string \<Rightarrow> string \<Rightarrow> int option" where
  "getClusterAttributeValue ep cluster attr = map_of ep (cluster, attr)"

definition BMCT_SLZ_exposes :: "device option \<Rightarrow> error + expose list" where
  "BMCT_SLZ_exposes device =
     (case device of
        None \<Rightarrow> Inr modeExposes
      | Some dev \<Rightarrow>
          (case getEndpoint dev 1 of
             None \<Rightarrow> Inl TypeError
           | Some ep \<Rightarrow>
               (let deviceModeKey = getClusterAttributeValue ep ''boschSpecific'' ''deviceMode'';
                    deviceMode =
                      (case deviceModeKey of
                         None \<Rightarrow> JUndefined
                       | Some k \<Rightarrow> findKey stateDeviceMode k)
                in if deviceMode = JStr ''light'' then Inr (commonExposes @ lightExposes)
                   else if deviceMode = JStr ''shutter'' then Inr (commonExposes @ coverExposes)
                   else Inr modeExposes)))"

section \<open>Universal Switch II (BHI-US): button presses, \<^verbatim>\<open>fzLocal.bhius_button_press\<close>\<close>

text \<open>
  An endpoint is known by the address of its device and its number. A raw message carries
  the endpoint it came from and its bytes.
\<close>

type_synonym endpoint_ref = "string \<times> nat"

record raw_msg =
  msg_endpoint :: endpoint_ref
  msg_bytes :: "nat list"

text \<open>
  The state that outlives an invocation: the sequence numbers already processed, by
  endpoint, and the pending long presses, by endpoint and button.
\<close>

record store =
  processed :: "endpoint_ref \<Rightarrow> nat list"
  registry :: "endpoint_ref \<times> string \<Rightarrow> nat option"

text \<open>
  Modelled from the spec: \<^verbatim>\<open>utils.hasAlreadyProcessedMessage\<close> is not among the source
  files. The spec asks for an "already processed" check keyed by the sequence number
  carried in the payload, such that a converter invoked twice with the same sequence number
  for the same endpoint is a no-op: the check answers whether the number was seen for the
  endpoint, and records it when it was not.
\<close>

definition hasAlreadyProcessedMessage :: "store \<Rightarrow> endpoint_ref \<Rightarrow> nat \<Rightarrow> bool \<times> store" where
  "hasAlreadyProcessedMessage st ep sequenceNumber =
     (if sequenceNumber \<in> set (processed st ep) then (True, st)
      else (False, st\<lparr>processed := (processed st)(ep := sequenceNumber # processed st ep)\<rparr>))"

text \<open>
  Modelled from the spec: \<^verbatim>\<open>globalStore\<close> (\<^verbatim>\<open>lib/store\<close>) is not among the source files.
  The spec describes the pending long-press registry as "a per-endpoint, per-button mapping
  from button identity to in-progress duration": \<^verbatim>\<open>hasValue\<close>, \<^verbatim>\<open>putValue\<close> and
  \<^verbatim>\<open>clearValue\<close> test, set and remove one entry of that mapping.
\<close>

definition hasValue :: "store \<Rightarrow> endpoint_ref \<Rightarrow> string \<Rightarrow> bool" where
  "hasValue st ep k = (registry st (ep, k) \<noteq> None)"

definition putValue :: "store \<Rightarrow> endpoint_ref \<Rightarrow> string \<Rightarrow> nat \<Rightarrow> store" where
  "putValue st ep k d = st\<lparr>registry := (registry st)((ep, k) \<mapsto> d)\<rparr>"

definition clearValue :: "store \<Rightarrow> endpoint_ref \<Rightarrow> string \<Rightarrow> store" where
  "clearValue st ep k = st\<lparr>registry := (registry st)((ep, k) := None)\<rparr>"

text \<open>What \<^verbatim>\<open>logger.error\<close> is called with.\<close>

datatype log_entry = InvalidLedResponseLength nat | UnknownCommandId nat "nat list"

text \<open>
  What an invocation of a decode converter leaves behind: the store, the log lines, the
  operations issued, and the error thrown or the value returned.
\<close>

record 'a fz_result =
  after :: store
  logged :: "log_entry list"
  issued :: "zcl_op list"
  returned :: "error + 'a"

text \<open>\<^verbatim>\<open>readUInt8\<close> and \<^verbatim>\<open>readUInt16LE\<close> throw a \<^verbatim>\<open>RangeError\<close> past the end of the buffer.\<close>

definition readUInt8 :: "nat list \<Rightarrow> nat \<Rightarrow> error + nat" where
  "readUInt8 d off = (if off < length d then Inr (d ! off) else Inl RangeError)"

definition readUInt16LE :: "nat list \<Rightarrow> nat \<Rightarrow> error + nat" where
  "readUInt16LE d off =
     (if off + 2 \<le> length d then Inr (d ! off + 256 * d ! (off + 1)) else Inl RangeError)"

definition buttons :: "(nat \<times> string) list" where
  "buttons = [(0, ''top_left''), (1, ''top_right''), (2, ''bottom_left''), (3, ''bottom_right'')]"

text \<open>
  The LED pattern sent with the confirmation: the \<^verbatim>\<open>led_response\<close> option when it is
  there and decodes to nine bytes, the default pattern otherwise; a wrong length is logged.
\<close>

definition ledResponse :: "string option \<Rightarrow> log_entry list \<times> nat list" where
  "ledResponse led_response =
     (case led_response of
        Some s \<Rightarrow>
          (let buffer = hexDecode s
           in if length buffer \<noteq> 9 then
                ([InvalidLedResponseLength (length buffer)], hexDecode ''30ff00000102010001'')
              else ([], buffer))
      | None \<Rightarrow> ([], hexDecode ''30ff00000102010001''))"

text \<open>
  The converter, in the order of the source: the four reads, the LED pattern, the check for
  an already processed message, and then the button. A long press with a duration is
  entered in the registry unless it is already there; anything else clears the entry and
  confirms the press without waiting for the outcome. An unknown button is logged.
\<close>

definition bhius_button_press_convert ::
  "(zcl_op \<Rightarrow> bool) \<Rightarrow> store \<Rightarrow> string option \<Rightarrow> raw_msg \<Rightarrow> patch option fz_result" where
  "bhius_button_press_convert accepts st led_response msg =
     (let thrown = (\<lambda>err. \<lparr>after = st, logged = [], issued = [], returned = Inl err\<rparr>)
      in case readUInt8 (msg_bytes msg) 3 of
           Inl err \<Rightarrow> thrown err
         | Inr sequenceNumber \<Rightarrow>
         (case readUInt8 (msg_bytes msg) 4 of
            Inl err \<Rightarrow> thrown err
          | Inr buttonId \<Rightarrow>
          (case readUInt8 (msg_bytes msg) 5 of
             Inl err \<Rightarrow> thrown err
           | Inr longPress \<Rightarrow>
           (case readUInt16LE (msg_bytes msg) 6 of
              Inl err \<Rightarrow> thrown err
            | Inr duration \<Rightarrow>
                (let lg = fst (ledResponse led_response);
                     buffer = snd (ledResponse led_response);
                     seen = hasAlreadyProcessedMessage st (msg_endpoint msg) sequenceNumber;
                     st1 = snd seen
                 in if fst seen then
                      \<lparr>after = st1, logged = lg, issued = [], returned = Inr None\<rparr>
                    else
                      (case map_of buttons buttonId of
                         Some button \<Rightarrow>
                           if longPress \<noteq> 0 \<and> duration > 0 then
                             (if hasValue st1 (msg_endpoint msg) button then
                                \<lparr>after = st1, logged = lg, issued = [], returned = Inr None\<rparr>
                              else
                                \<lparr>after = putValue st1 (msg_endpoint msg) button duration,
                                 logged = lg, issued = [],
                                 returned =
                                   Inr (Some [(''action'',
                                     JStr (''button_'' @ button @ ''_'' @ ''longpress''))])\<rparr>)
                           else
                             (let command =
                                    (if longPress \<noteq> 0 then ''longpress_release'' else ''release'');
                                  sent =
                                    fireAndForget accepts
                                      (Command MsgEndpoint (ByName ''boschSpecific'')
                                         (ByName ''confirmButtonPressed'')
                                         [(''data'', JBuffer buffer)] SendImmediate)
                                      ([], Inr (Some [(''action'',
                                         JStr (''button_'' @ button @ ''_'' @ command))]))
                              in \<lparr>after = clearValue st1 (msg_endpoint msg) button,
                                  logged = lg, issued = fst sent, returned = snd sent\<rparr>)
                       | None \<Rightarrow>
                           \<lparr>after = st1,
                            logged = lg @ [UnknownCommandId buttonId (msg_bytes msg)],
                            issued = [], returned = Inr None\<rparr>))))))"

section \<open>Transports, and the notions the stated properties use\<close>

text \<open>A transport that accepts every operation, and one that rejects every operation.\<close>

definition accepting :: "zcl_op \<Rightarrow> bool" where
  "accepting z = True"


text \<open>A requested value is present in a lookup table when it is a string and a key of it.\<close>

definition inLookup :: "jsval \<Rightarrow> (string \<times> nat) list \<Rightarrow> bool" where
  "inLookup v lookup = (case v of JStr s \<Rightarrow> s \<in> set (keys lookup) | _ \<Rightarrow> False)"

text \<open>
  The properties of each encode converter that are set through a lookup table, with the
  table the source names for them.
\<close>

definition rbshoszbeu_lookups :: "(string \<times> (string \<times> nat) list) list" where
  "rbshoszbeu_lookups =
     [(''siren_and_light'', sirenLight), (''siren_volume'', sirenVolume),
      (''power_source'', sirenPowerSupply), (''alarm_state'', outdoorSirenState)]"

definition twinguard_lookups :: "(string \<times> (string \<times> nat) list) list" where
  "twinguard_lookups =
     [(''sensitivity'', smokeSensitivity), (''pre_alarm'', stateOffOn),
      (''heartbeat'', stateOffOn), (''alarm'', twinguard_sirenState)]"

definition smokeAlarm_lookups :: "(string \<times> (string \<times> nat) list) list" where
  "smokeAlarm_lookups = [(''alarm_smoke'', smokeAlarm), (''alarm_burglar'', burglarAlarm)]"

definition broadcastAlarm_lookups :: "(string \<times> (string \<times> nat) list) list" where
  "broadcastAlarm_lookups = [(''broadcast_alarm'', broadcast_sirenState)]"

definition bmct_lookups :: "(string \<times> (string \<times> nat) list) list" where
  "bmct_lookups =
     [(''device_mode'', stateDeviceMode), (''switch_type'', stateSwitchType),
      (''child_lock'', stateOffOn)]"

text \<open>
  The factors of the air purity bands as the property states them: 6 and 2 up to 50, then
  10, 20 and 50 with 4 for the bands ending at 100, 150 and 200, and 100 with 4 above.
\<close>

definition statedFactors :: "int \<Rightarrow> int \<times> int" where
  "statedFactors iaq =
     (if iaq \<le> 50 then (6, 2)
      else if iaq \<le> 100 then (10, 4)
      else if iaq \<le> 150 then (20, 4)
      else if iaq \<le> 200 then (50, 4)
      else (100, 4))"

text \<open>
  Feeding a list of raw messages, each with the options of its invocation, to the button
  press converter, one after the other.
\<close>

fun feed :: "(zcl_op \<Rightarrow> bool) \<Rightarrow> store \<Rightarrow> (string option \<times> raw_msg) list \<Rightarrow> store" where
  "feed accepts st [] = st"
| "feed accepts st ((led_response, msg) # rest) =
     feed accepts (after (bhius_button_press_convert accepts st led_response msg)) rest"

text \<open>
  The store before any message, the answer to a read of the daylight saving attributes,
  and the acknowledgment of a Twinguard alarm.
\<close>

definition emptyStore :: store where
  "emptyStore = \<lparr>processed = (\<lambda>_. []), registry = (\<lambda>_. None)\<rparr>"



section \<open>Lookup tables: values outside the table\<close>

lemma getFromLookup_absent:
  "\<not> inLookup v lookup \<Longrightarrow> getFromLookup v lookup = Inl (NotInLookup v (keys lookup))"
  by (cases v) (auto simp: getFromLookup_def inLookup_def keys_def map_of_eq_None_iff
      split: option.splits)

lemma await_accepting: "await accepting z k = (z # fst k, snd k)"
  by (simp add: await_def accepting_def)


text \<open>
  Indexing the key list by the code inverts the encoding of a table whose codes count up
  from zero in the order of the keys, as \<open>stateOffOn\<close> does for \<open>pre_alarm\<close> and
  \<open>heartbeat\<close>.
\<close>

lemma twinguard_pre_alarm_roundtrip:
  "map_of stateOffOn s = Some c \<Longrightarrow>
     fst (twinguard_convertSet accepts ent ''pre_alarm'' (JStr s)) =
       [Write Entity (ByName ''twinguardOptions'') [(ByName ''pre_alarm'', JNum (of_nat c), None)]
          NoOptions]
     \<and> twinguardOptions_convert [(''pre_alarm'', int c)] = [(''pre_alarm'', JStr s)]
     \<and> twinguardSetup_convert [(''heartbeat'', int c)] = [(''heartbeat'', JStr s)]"
  by (auto simp: twinguard_convertSet_def twinguardOptions_convert_def
      twinguardSetup_convert_def getFromLookup_def stateOffOn_def await_def index_def keys_def
      split: if_splits)

text \<open>
  C1 (the code at the failing input). Setting the Twinguard sensitivity to \<open>low\<close> writes the
  code 3, and the decode converter turns the code 3 into \<^verbatim>\<open>undefined\<close>: it indexes the
  key list \<open>[low, medium, high]\<close> by the code. The codes 2 and 1, written for \<open>medium\<close> and
  \<open>high\<close>, come back as \<open>high\<close> and \<open>medium\<close>.
\<close>

theorem twinguard_sensitivity_not_inverse:
  "twinguard_convertSet accepting (Endpoint 1) ''sensitivity'' (JStr ''low'') =
     ([Write Entity (ByName ''twinguardSmokeDetector'') [(ByName ''sensitivity'', JNum 3, None)]
         NoOptions],
      Inr (Some [(''sensitivity'', JStr ''low'')]))
   \<and> twinguardSmokeDetector_convert [(''sensitivity'', 3)] = [(''sensitivity'', JUndefined)]
   \<and> twinguardSmokeDetector_convert [(''sensitivity'', 2)] = [(''sensitivity'', JStr ''high'')]
   \<and> twinguardSmokeDetector_convert [(''sensitivity'', 1)] = [(''sensitivity'', JStr ''medium'')]"
  by (simp add: twinguard_convertSet_def twinguardSmokeDetector_convert_def getFromLookup_def
      smokeSensitivity_def await_accepting index_def keys_def)

lemma rbshoszbeu_lookup_absent:
  assumes "getFromLookup v lookup = Inl (NotInLookup v (keys lookup))"
    and "(key, lookup) \<in> set rbshoszbeu_lookups"
  shows "rbshoszbeu_convertSet accepts key v = ([], Inl (NotInLookup v (keys lookup)))"
proof -
  from assms(2) have "key = ''siren_and_light'' \<and> lookup = sirenLight
      \<or> key = ''siren_volume'' \<and> lookup = sirenVolume
      \<or> key = ''power_source'' \<and> lookup = sirenPowerSupply
      \<or> key = ''alarm_state'' \<and> lookup = outdoorSirenState"
    by (simp add: rbshoszbeu_lookups_def)
  then show ?thesis
    using assms(1) by (elim disjE conjE) (simp_all add: rbshoszbeu_convertSet_def)
qed

lemma twinguard_lookup_absent:
  assumes "getFromLookup v lookup = Inl (NotInLookup v (keys lookup))"
    and "(key, lookup) \<in> set twinguard_lookups"
  shows "twinguard_convertSet accepts ent key v = ([], Inl (NotInLookup v (keys lookup)))"
proof -
  from assms(2) have "key = ''sensitivity'' \<and> lookup = smokeSensitivity
      \<or> key = ''pre_alarm'' \<and> lookup = stateOffOn
      \<or> key = ''heartbeat'' \<and> lookup = stateOffOn
      \<or> key = ''alarm'' \<and> lookup = twinguard_sirenState"
    by (simp add: twinguard_lookups_def)
  then show ?thesis
    using assms(1) by (elim disjE conjE) (simp_all add: twinguard_convertSet_def)
qed

lemma smokeAlarm_lookup_absent:
  assumes "getFromLookup v lookup = Inl (NotInLookup v (keys lookup))"
    and "(key, lookup) \<in> set smokeAlarm_lookups"
  shows "smokeAlarm_convertSet accepts key v = ([], Inl (NotInLookup v (keys lookup)))"
proof -
  from assms(2) have "key = ''alarm_smoke'' \<and> lookup = smokeAlarm
      \<or> key = ''alarm_burglar'' \<and> lookup = burglarAlarm"
    by (simp add: smokeAlarm_lookups_def)
  then show ?thesis
    using assms(1) by (elim disjE conjE) (simp_all add: smokeAlarm_convertSet_def)
qed

lemma broadcastAlarm_lookup_absent:
  assumes "getFromLookup v lookup = Inl (NotInLookup v (keys lookup))"
    and "(key, lookup) \<in> set broadcastAlarm_lookups"
  shows "broadcastAlarm_convertSet accepts ent key v = ([], Inl (NotInLookup v (keys lookup)))"
proof -
  from assms(2) have "key = ''broadcast_alarm'' \<and> lookup = broadcast_sirenState"
    by (simp add: broadcastAlarm_lookups_def)
  then show ?thesis
    using assms(1) by (elim conjE) (simp_all add: broadcastAlarm_convertSet_def)
qed

lemma bmct_lookup_absent:
  assumes "getFromLookup v lookup = Inl (NotInLookup v (keys lookup))"
    and "(key, lookup) \<in> set bmct_lookups"
  shows "bmct_convertSet accepts cover_state on_off ent key v =
    ([], Inl (NotInLookup v (keys lookup)))"
proof -
  from assms(2) have "key = ''device_mode'' \<and> lookup = stateDeviceMode
      \<or> key = ''switch_type'' \<and> lookup = stateSwitchType
      \<or> key = ''child_lock'' \<and> lookup = stateOffOn"
    by (simp add: bmct_lookups_def)
  then show ?thesis
    using assms(1) by (elim disjE conjE) (simp_all add: bmct_convertSet_def andThen_def)
qed

text \<open>
  C2. For every property that an encode converter sets through a lookup table (the outdoor
  siren, the Twinguard, the smoke alarm, the broadcast alarm and the light/shutter unit),
  a requested value that is not in the property's table makes \<^verbatim>\<open>convertSet\<close> throw an
  error naming the value and the keys of the table, and no operation is issued.
\<close>

theorem set_outside_lookup_fails_without_operation:
  assumes "\<not> inLookup v lookup"
  shows "((key, lookup) \<in> set rbshoszbeu_lookups \<longrightarrow>
            rbshoszbeu_convertSet accepts key v = ([], Inl (NotInLookup v (keys lookup))))
       \<and> ((key, lookup) \<in> set twinguard_lookups \<longrightarrow>
            twinguard_convertSet accepts ent key v = ([], Inl (NotInLookup v (keys lookup))))
       \<and> ((key, lookup) \<in> set smokeAlarm_lookups \<longrightarrow>
            smokeAlarm_convertSet accepts key v = ([], Inl (NotInLookup v (keys lookup))))
       \<and> ((key, lookup) \<in> set broadcastAlarm_lookups \<longrightarrow>
            broadcastAlarm_convertSet accepts ent key v = ([], Inl (NotInLookup v (keys lookup))))
       \<and> ((key, lookup) \<in> set bmct_lookups \<longrightarrow>
            bmct_convertSet accepts cover_state on_off ent key v =
              ([], Inl (NotInLookup v (keys lookup))))"
proof -
  note absent = getFromLookup_absent [OF assms]
  show ?thesis
  proof (intro conjI impI)
    assume "(key, lookup) \<in> set rbshoszbeu_lookups"
    then show "rbshoszbeu_convertSet accepts key v = ([], Inl (NotInLookup v (keys lookup)))"
      by (rule rbshoszbeu_lookup_absent [OF absent])
  next
    assume "(key, lookup) \<in> set twinguard_lookups"
    then show "twinguard_convertSet accepts ent key v = ([], Inl (NotInLookup v (keys lookup)))"
      by (rule twinguard_lookup_absent [OF absent])
  next
    assume "(key, lookup) \<in> set smokeAlarm_lookups"
    then show "smokeAlarm_convertSet accepts key v = ([], Inl (NotInLookup v (keys lookup)))"
      by (rule smokeAlarm_lookup_absent [OF absent])
  next
    assume "(key, lookup) \<in> set broadcastAlarm_lookups"
    then show "broadcastAlarm_convertSet accepts ent key v =
        ([], Inl (NotInLookup v (keys lookup)))"
      by (rule broadcastAlarm_lookup_absent [OF absent])
  next
    assume "(key, lookup) \<in> set bmct_lookups"
    then show "bmct_convertSet accepts cover_state on_off ent key v =
        ([], Inl (NotInLookup v (keys lookup)))"
      by (rule bmct_lookup_absent [OF absent])
  qed
qed

theorem set_outside_lookup_fails_witness:
  "rbshoszbeu_convertSet accepting ''siren_volume'' (JStr ''loud'') =
     ([], Inl (NotInLookup (JStr ''loud'') [''low'', ''medium'', ''high'']))
   \<and> twinguard_convertSet accepting (Endpoint 1) ''sensitivity'' (JNum 2) =
     ([], Inl (NotInLookup (JNum 2) [''low'', ''medium'', ''high'']))"
proof -
  have a: "\<not> inLookup (JStr ''loud'') sirenVolume"
    by (simp add: inLookup_def keys_def sirenVolume_def)
  have b: "\<not> inLookup (JNum 2) smokeSensitivity"
    by (simp add: inLookup_def)
  have c: "(''siren_volume'', sirenVolume) \<in> set rbshoszbeu_lookups"
    by (simp add: rbshoszbeu_lookups_def)
  have d: "(''sensitivity'', smokeSensitivity) \<in> set twinguard_lookups"
    by (simp add: twinguard_lookups_def)
  have e1: "keys sirenVolume = [''low'', ''medium'', ''high'']"
    by (simp add: keys_def sirenVolume_def)
  have e2: "keys smokeSensitivity = [''low'', ''medium'', ''high'']"
    by (simp add: keys_def smokeSensitivity_def)
  show ?thesis
    using set_outside_lookup_fails_without_operation [OF a, of "''siren_volume''" accepting]
      set_outside_lookup_fails_without_operation [OF b, of "''sensitivity''" accepting "Endpoint 1"]
      c d e1 e2
    by simp
qed

text \<open>
  C3 (the code on the encode side). Setting \<open>siren_volume\<close> to \<open>medium\<close> on the outdoor
  siren issues exactly one operation, the write of the value 0x02 to attribute 0xa002 of
  cluster 0x0502, and returns the patch \<open>siren_volume = medium\<close> when the write is accepted;
  getting \<open>siren_volume\<close> issues the read of that attribute. The answer to that read has
  no decode converter in the file: the \<^verbatim>\<open>fromZigbee\<close> list of the profile names three
  converters of the library, and the two decode converters the file defines listen on
  \<^verbatim>\<open>boschSpecific\<close> and belong to another profile.
\<close>

theorem BSIR_EZ_siren_volume_written_and_read:
  "rbshoszbeu_convertSet accepts ''siren_volume'' (JStr ''medium'') =
     ([Write Entity (ById 0x0502) [(ById 0xa002, JNum 0x02, Some 0x20)] ManufacturerOptions],
      if accepts
           (Write Entity (ById 0x0502) [(ById 0xa002, JNum 0x02, Some 0x20)] ManufacturerOptions)
      then Inr (Some [(''siren_volume'', JStr ''medium'')])
      else Inl (Rejected
        (Write Entity (ById 0x0502) [(ById 0xa002, JNum 0x02, Some 0x20)] ManufacturerOptions)))
   \<and> rbshoszbeu_convertGet accepts ''siren_volume'' =
     ([Read Entity (ById 0x0502) [ById 0xa002] ManufacturerOptions],
      if accepts (Read Entity (ById 0x0502) [ById 0xa002] ManufacturerOptions)
      then Inr ()
      else Inl (Rejected (Read Entity (ById 0x0502) [ById 0xa002] ManufacturerOptions)))"
  by (simp add: rbshoszbeu_convertSet_def rbshoszbeu_convertGet_def getFromLookup_def
      sirenVolume_def await_def)

section \<open>Keys outside the key list of a shared converter\<close>

lemma bhius_config_unknown_key:
  "key \<notin> set bhius_config_key \<Longrightarrow> map_of buttonMap key = None"
  by (simp add: bhius_config_key_def keys_def map_of_eq_None_iff)

lemma outside_rbshoszbeu_key:
  assumes "key \<notin> set rbshoszbeu_key"
  shows "key \<noteq> ''light_delay''" "key \<noteq> ''siren_delay''" "key \<noteq> ''light_duration''"
    "key \<noteq> ''siren_duration''" "key \<noteq> ''siren_volume''" "key \<noteq> ''alarm_state''"
    "key \<noteq> ''power_source''" "key \<noteq> ''siren_and_light''"
  using assms by (simp_all add: rbshoszbeu_key_def)

lemma outside_twinguard_key:
  assumes "key \<notin> set twinguard_key"
  shows "key \<noteq> ''sensitivity''" "key \<noteq> ''pre_alarm''" "key \<noteq> ''self_test''"
    "key \<noteq> ''alarm''" "key \<noteq> ''heartbeat''"
  using assms by (simp_all add: twinguard_key_def)

lemma outside_smokeAlarm_key:
  assumes "key \<notin> set smokeAlarm_key"
  shows "key \<noteq> ''alarm_smoke''" "key \<noteq> ''alarm_burglar''"
  using assms by (simp_all add: smokeAlarm_key_def)

lemma outside_bmct_key:
  assumes "key \<notin> set bmct_key"
  shows "key \<noteq> ''device_mode''" "key \<noteq> ''switch_type''" "key \<noteq> ''child_lock''"
    "key \<noteq> ''state''" "key \<noteq> ''on_time''" "key \<noteq> ''off_wait_time''"
  using assms by (simp_all add: bmct_key_def)

lemma outside_bmct_calibration_key:
  assumes "key \<notin> set bmct_calibration_key"
  shows "key \<noteq> ''calibration_closing_time''" "key \<noteq> ''calibration_opening_time''"
    "key \<noteq> ''calibration_button_hold_time''" "key \<noteq> ''calibration_motor_start_delay''"
  using assms by (simp_all add: bmct_calibration_key_def)

text \<open>
  C6 (counterexample). Set with a key outside the key list returns without an error, for
  the LED configuration of the Universal Switch II and for the outdoor siren. Get on the
  smoke alarm converter with \<open>zone_status\<close>, which its key list does not hold, issues a
  read. Set on the light/shutter converter with \<open>on_wait_time\<close>, which its key list does
  not hold, ends as \<^verbatim>\<open>tz.on_off\<close> ends on an endpoint other than 1.
\<close>

theorem unknown_key_set_counterexample:
  "bhius_config_convertSet accepting ''config_led_center_press'' (JStr ''30ff00000102010001'')
     = ([], Inr None)
   \<and> rbshoszbeu_convertSet accepting ''siren_tone'' (JStr ''low'') = ([], Inr None)
   \<and> ''zone_status'' \<notin> set smokeAlarm_key
   \<and> smokeAlarm_convertGet accepting ''zone_status'' =
       ([Read Entity (ByName ''ssIasZone'') [ByName ''zoneStatus''] NoOptions], Inr ())
   \<and> ''on_wait_time'' \<notin> set bmct_key
   \<and> bmct_convertSet accepting (\<lambda>k x. ([], Inr ())) (\<lambda>k x. ([], Inl TypeError)) (Endpoint 2)
         ''on_wait_time'' (JNum 5)
       = ([], Inl TypeError)"
  by (simp add: bhius_config_convertSet_def buttonMap_def rbshoszbeu_convertSet_def
      smokeAlarm_key_def smokeAlarm_convertGet_def await_accepting bmct_key_def
      bmct_convertSet_def andThen_def)

text \<open>
  C6 (amended). For each of the six encode converters of the two files that serve several
  keys (the LED configuration of the Universal Switch II, the outdoor siren, the Twinguard,
  the smoke alarm, the light/shutter unit and its calibration converter) and every key
  outside the converter's key list: get throws an error naming the key and issues no read,
  except that the smoke alarm converter reads the zone status for \<open>zone_status\<close>; set returns
  nothing, without an error and without issuing a write, except that the light/shutter
  converter, for \<open>on_wait_time\<close> on an endpoint other than 1, first calls \<^verbatim>\<open>tz.on_off\<close> and
  ends with its error if it throws.
\<close>

theorem unknown_key_get_throws_set_returns_nothing:
  "(key \<notin> set bhius_config_key \<longrightarrow>
      bhius_config_convertGet accepts key = ([], Inl (UnknownKey key))
      \<and> bhius_config_convertSet accepts key v = ([], Inr None))
   \<and> (key \<notin> set rbshoszbeu_key \<longrightarrow>
      rbshoszbeu_convertGet accepts key =
        ([], Inl (UnhandledKey ''toZigbee.rbshoszbeu.convertGet'' key))
      \<and> rbshoszbeu_convertSet accepts key v = ([], Inr None))
   \<and> (key \<notin> set twinguard_key \<longrightarrow>
      twinguard_convertGet accepts key =
        ([], Inl (UnhandledKey ''boschExtend.twinguard.toZigbee.convertGet'' key))
      \<and> twinguard_convertSet accepts ent key v = ([], Inr None))
   \<and> (key \<notin> set smokeAlarm_key \<longrightarrow>
      smokeAlarm_convertSet accepts key v = ([], Inr None)
      \<and> smokeAlarm_convertGet accepts key =
          (if key = ''zone_status'' then
             await accepts (Read Entity (ByName ''ssIasZone'') [ByName ''zoneStatus''] NoOptions)
               ([], Inr ())
           else ([], Inl (UnhandledKey ''boschExtend.smokeAlarm.toZigbee.convertGet'' key))))
   \<and> (key \<notin> set bmct_key \<longrightarrow>
      bmct_convertGet accepts ent key =
        ([], Inl (UnhandledKey ''boschExtend.bmct.toZigbee.convertGet'' key))
      \<and> bmct_convertSet accepts cover_state on_off ent key v =
          (if key = ''on_wait_time'' \<and> (case ent of Endpoint n \<Rightarrow> n \<noteq> 1 | Group _ \<Rightarrow> False)
           then andThen (on_off key v) ([], Inr None)
           else ([], Inr None)))
   \<and> (key \<notin> set bmct_calibration_key \<longrightarrow>
      bmct_calibration_convertGet accepts key =
        ([], Inl (UnhandledKey ''boschExtend.bmct.toZigbee.convertGet'' key))
      \<and> bmct_calibration_convertSet accepts toNumber key v = ([], Inr None))"
proof (intro conjI impI)
  assume "key \<notin> set bhius_config_key"
  then have none: "map_of buttonMap key = None" by (rule bhius_config_unknown_key)
  from none show "bhius_config_convertGet accepts key = ([], Inl (UnknownKey key))"
    by (simp add: bhius_config_convertGet_def)
  from none show "bhius_config_convertSet accepts key v = ([], Inr None)"
    by (simp add: bhius_config_convertSet_def)
next
  assume "key \<notin> set rbshoszbeu_key"
  note other = outside_rbshoszbeu_key [OF this]
  from other show "rbshoszbeu_convertGet accepts key =
      ([], Inl (UnhandledKey ''toZigbee.rbshoszbeu.convertGet'' key))"
    by (simp add: rbshoszbeu_convertGet_def)
  from other show "rbshoszbeu_convertSet accepts key v = ([], Inr None)"
    by (simp add: rbshoszbeu_convertSet_def)
next
  assume "key \<notin> set twinguard_key"
  note other = outside_twinguard_key [OF this]
  from other show "twinguard_convertGet accepts key =
      ([], Inl (UnhandledKey ''boschExtend.twinguard.toZigbee.convertGet'' key))"
    by (simp add: twinguard_convertGet_def)
  from other show "twinguard_convertSet accepts ent key v = ([], Inr None)"
    by (simp add: twinguard_convertSet_def)
next
  assume "key \<notin> set smokeAlarm_key"
  note other = outside_smokeAlarm_key [OF this]
  from other show "smokeAlarm_convertSet accepts key v = ([], Inr None)"
    by (simp add: smokeAlarm_convertSet_def)
  from other show "smokeAlarm_convertGet accepts key =
      (if key = ''zone_status'' then
         await accepts (Read Entity (ByName ''ssIasZone'') [ByName ''zoneStatus''] NoOptions)
           ([], Inr ())
       else ([], Inl (UnhandledKey ''boschExtend.smokeAlarm.toZigbee.convertGet'' key)))"
    by (simp add: smokeAlarm_convertGet_def)
next
  assume "key \<notin> set bmct_key"
  note other = outside_bmct_key [OF this]
  from other show "bmct_convertGet accepts ent key =
      ([], Inl (UnhandledKey ''boschExtend.bmct.toZigbee.convertGet'' key))"
    by (simp add: bmct_convertGet_def)
  from other show "bmct_convertSet accepts cover_state on_off ent key v =
      (if key = ''on_wait_time'' \<and> (case ent of Endpoint n \<Rightarrow> n \<noteq> 1 | Group _ \<Rightarrow> False)
       then andThen (on_off key v) ([], Inr None)
       else ([], Inr None))"
    by (cases "key = ''on_wait_time''")
      (simp_all add: bmct_convertSet_def andThen_def split: sum.split)
next
  assume "key \<notin> set bmct_calibration_key"
  note other = outside_bmct_calibration_key [OF this]
  from other show "bmct_calibration_convertGet accepts key =
      ([], Inl (UnhandledKey ''boschExtend.bmct.toZigbee.convertGet'' key))"
    by (simp add: bmct_calibration_convertGet_def)
  from other show "bmct_calibration_convertSet accepts toNumber key v = ([], Inr None)"
    by (simp add: bmct_calibration_convertSet_def)
qed

theorem unknown_key_witness:
  "bhius_config_convertGet accepting ''config_led_center_press'' =
     ([], Inl (UnknownKey ''config_led_center_press''))
   \<and> bhius_config_convertSet accepting ''config_led_center_press'' (JStr ''00'') = ([], Inr None)
   \<and> rbshoszbeu_convertGet accepting ''siren_tone'' =
     ([], Inl (UnhandledKey ''toZigbee.rbshoszbeu.convertGet'' ''siren_tone''))
   \<and> rbshoszbeu_convertSet accepting ''siren_tone'' (JStr ''low'') = ([], Inr None)
   \<and> twinguard_convertGet accepting ''siren_tone'' =
     ([], Inl (UnhandledKey ''boschExtend.twinguard.toZigbee.convertGet'' ''siren_tone''))
   \<and> twinguard_convertSet accepting (Endpoint 1) ''siren_tone'' (JStr ''low'') = ([], Inr None)
   \<and> smokeAlarm_convertGet accepting ''siren_tone'' =
     ([], Inl (UnhandledKey ''boschExtend.smokeAlarm.toZigbee.convertGet'' ''siren_tone''))
   \<and> smokeAlarm_convertSet accepting ''siren_tone'' (JStr ''low'') = ([], Inr None)
   \<and> bmct_convertGet accepting (Endpoint 1) ''siren_tone'' =
     ([], Inl (UnhandledKey ''boschExtend.bmct.toZigbee.convertGet'' ''siren_tone''))
   \<and> bmct_convertSet accepting (\<lambda>k x. ([], Inr ())) (\<lambda>k x. ([], Inr ())) (Endpoint 1)
       ''siren_tone'' (JStr ''low'') = ([], Inr None)
   \<and> bmct_calibration_convertGet accepting ''siren_tone'' =
     ([], Inl (UnhandledKey ''boschExtend.bmct.toZigbee.convertGet'' ''siren_tone''))
   \<and> bmct_calibration_convertSet accepting (\<lambda>x n. Inl TypeError) ''siren_tone'' (JStr ''low'')
     = ([], Inr None)"
proof -
  have a: "''config_led_center_press'' \<notin> set bhius_config_key"
    by (simp add: bhius_config_key_def keys_def buttonMap_def)
  have b: "''siren_tone'' \<notin> set rbshoszbeu_key" "''siren_tone'' \<notin> set twinguard_key"
    "''siren_tone'' \<notin> set smokeAlarm_key" "''siren_tone'' \<notin> set bmct_key"
    "''siren_tone'' \<notin> set bmct_calibration_key"
    by (simp_all add: rbshoszbeu_key_def twinguard_key_def smokeAlarm_key_def bmct_key_def
        bmct_calibration_key_def)
  show ?thesis
    using unknown_key_get_throws_set_returns_nothing
        [where key = "''config_led_center_press''" and accepts = accepting and v = "JStr ''00''"]
      unknown_key_get_throws_set_returns_nothing
        [where key = "''siren_tone''" and accepts = accepting and v = "JStr ''low''"
           and ent = "Endpoint 1" and cover_state = "\<lambda>k x. ([], Inr ())"
           and on_off = "\<lambda>k x. ([], Inr ())" and toNumber = "\<lambda>x n. Inl TypeError"]
      a b
    by simp
qed

section \<open>The valve adaptation trigger\<close>

lemma adaptationStatus_lookup:
  "getFromLookup (JStr s) adaptationStatus =
     (if s = ''none'' then Inr 0
      else if s = ''ready_to_calibrate'' then Inr 1
      else if s = ''calibration_in_progress'' then Inr 2
      else if s = ''error'' then Inr 3
      else if s = ''success'' then Inr 4
      else Inl (NotInLookup (JStr s) (keys adaptationStatus)))"
  by (simp add: getFromLookup_def adaptationStatus_def keys_def)

lemma adaptationStatus_inLookup:
  "inLookup (JStr s) adaptationStatus =
     (s = ''none'' \<or> s = ''ready_to_calibrate'' \<or> s = ''calibration_in_progress''
      \<or> s = ''error'' \<or> s = ''success'')"
  by (simp add: inLookup_def adaptationStatus_def keys_def)

text \<open>
  C7. Setting \<open>valve_adapt_process\<close> to \<open>true\<close>: when the known \<open>valve_adapt_status\<close> is
  \<open>ready_to_calibrate\<close> or \<open>error\<close>, exactly one \<open>calibrateValve\<close> command is issued and,
  the command accepted, the patch \<open>valve_adapt_process = true\<close> is returned; for any other
  known status, or none, an error is thrown and no command is issued.
\<close>

theorem valve_adapt_process_set_true:
  "valveAdaptProcess_convertSet toNumber accepts metaState (JBool True) =
     (if getProp metaState ''valve_adapt_status'' = JStr ''ready_to_calibrate''
         \<or> getProp metaState ''valve_adapt_status'' = JStr ''error''
      then
        ([Command Entity (ByName ''hvacThermostat'') (ByName ''calibrateValve'') []
            ManufacturerOptions],
         if accepts
              (Command Entity (ByName ''hvacThermostat'') (ByName ''calibrateValve'') []
                 ManufacturerOptions)
         then Inr (Some [(''valve_adapt_process'', JBool True)])
         else Inl (Rejected
           (Command Entity (ByName ''hvacThermostat'') (ByName ''calibrateValve'') []
              ManufacturerOptions)))
      else
        ([], Inl (if inLookup (getProp metaState ''valve_adapt_status'') adaptationStatus
                  then ValveAdaptationNotPossible
                  else NotInLookup (getProp metaState ''valve_adapt_status'')
                         (keys adaptationStatus))))"
proof (cases "getProp metaState ''valve_adapt_status''")
  case (JStr s)
  have codes: "map_of adaptationStatus ''ready_to_calibrate'' = Some 1"
    "map_of adaptationStatus ''error'' = Some 3"
    by (simp_all add: adaptationStatus_def)
  show ?thesis
    unfolding valveAdaptProcess_convertSet_def JStr codes
    by (simp add: looseEqTrue_def adaptationStatus_lookup adaptationStatus_inLookup await_def)
qed (simp_all add: valveAdaptProcess_convertSet_def looseEqTrue_def getFromLookup_def
    inLookup_def keys_def)

theorem valve_adapt_process_set_true_witness:
  "valveAdaptProcess_convertSet (\<lambda>_. None) accepting
       [(''valve_adapt_status'', JStr ''success'')] (JBool True)
     = ([], Inl ValveAdaptationNotPossible)
   \<and> valveAdaptProcess_convertSet (\<lambda>_. None) accepting
       [(''valve_adapt_status'', JStr ''error'')] (JBool True)
     = ([Command Entity (ByName ''hvacThermostat'') (ByName ''calibrateValve'') []
           ManufacturerOptions],
        Inr (Some [(''valve_adapt_process'', JBool True)]))"
  using valve_adapt_process_set_true
      [of "\<lambda>_. None" accepting "[(''valve_adapt_status'', JStr ''success'')]"]
    valve_adapt_process_set_true
      [of "\<lambda>_. None" accepting "[(''valve_adapt_status'', JStr ''error'')]"]
  by (simp add: getProp_def adaptationStatus_inLookup accepting_def)

section \<open>The air quality values of the Twinguard\<close>

lemma airpurityFactors_stated: "airpurityFactors iaq = statedFactors iaq"
  by (simp add: airpurityFactors_def statedFactors_def)

text \<open>
  C10. For a measurement report carrying the air purity value \<open>iaq\<close>, the decoded patch has
  \<open>aqi = iaq\<close>, \<open>voc = iaq * f_voc\<close> and \<open>co2 = iaq * f_co2 + 400\<close>, the factors being (6, 2)
  up to 50, (10, 4) from 51 to 100, (20, 4) from 101 to 150, (50, 4) from 151 to 200 and
  (100, 4) from 201 on, in integer arithmetic.
\<close>

theorem twinguard_airpurity_values:
  assumes "map_of d ''airpurity'' = Some iaq"
  shows "map_of (twinguardMeasurements_convert isInRange precisionRound d) ''aqi''
           = Some (JNum (of_int iaq))
       \<and> map_of (twinguardMeasurements_convert isInRange precisionRound d) ''voc''
           = Some (JNum (of_int (iaq * fst (statedFactors iaq))))
       \<and> map_of (twinguardMeasurements_convert isInRange precisionRound d) ''co2''
           = Some (JNum (of_int (iaq * snd (statedFactors iaq) + 400)))"
  using assms
  by (simp add: twinguardMeasurements_convert_def airpurityFactors_stated Let_def
      split: option.split)

theorem twinguard_airpurity_values_witness:
  "map_of (twinguardMeasurements_convert (\<lambda>lo hi x. lo \<le> x \<and> x \<le> hi) (\<lambda>x n. x)
             [(''humidity'', 4550), (''airpurity'', 120)]) ''aqi'' = Some (JNum 120)
   \<and> map_of (twinguardMeasurements_convert (\<lambda>lo hi x. lo \<le> x \<and> x \<le> hi) (\<lambda>x n. x)
             [(''humidity'', 4550), (''airpurity'', 120)]) ''voc'' = Some (JNum 2400)
   \<and> map_of (twinguardMeasurements_convert (\<lambda>lo hi x. lo \<le> x \<and> x \<le> hi) (\<lambda>x n. x)
             [(''humidity'', 4550), (''airpurity'', 120)]) ''co2'' = Some (JNum 880)"
proof -
  have a: "map_of [(''humidity'', 4550), (''airpurity'', 120 :: int)] ''airpurity'' = Some 120"
    by simp
  show ?thesis
    using twinguard_airpurity_values [OF a, of "\<lambda>lo hi x. lo \<le> x \<and> x \<le> hi" "\<lambda>x n. x"]
    by (simp add: statedFactors_def)
qed

section \<open>The exposed properties of the light/shutter control unit\<close>

lemma stateDeviceMode_find:
  "findKey stateDeviceMode 1 = JStr ''shutter''" "findKey stateDeviceMode 4 = JStr ''light''"
  by (simp_all add: findKey_def keys_def stateDeviceMode_def)

lemma cover_light_disjoint: "set coverExposes \<inter> set lightExposes = {}"
  by (simp add: coverExposes_def lightExposes_def chain_def preset_def withEndpoint_def
      withDescription_def withUnit_def withValueMin_def withValueMax_def withValueStep_def)

lemma common_cover_disjoint: "set commonExposes \<inter> set coverExposes = {}"
  by (simp add: commonExposes_def coverExposes_def chain_def preset_def withEndpoint_def
      withDescription_def withUnit_def withValueMin_def withValueMax_def withValueStep_def)

lemma common_light_disjoint: "set commonExposes \<inter> set lightExposes = {}"
  by (simp add: commonExposes_def lightExposes_def chain_def preset_def withEndpoint_def
      withDescription_def withUnit_def withValueMin_def withValueMax_def withValueStep_def)

text \<open>
  C9. The properties the BMCT-SLZ profile exposes are a function of the device mode stored
  on endpoint 1. With the mode \<open>shutter\<close> they are the common descriptors followed by the
  cover descriptors (cover position, \<open>motor_state\<close>, \<open>child_lock\<close>, the four calibration
  times); with the mode \<open>light\<close> they are the common descriptors followed by the light
  descriptors (a switch, a power-on behaviour and a \<open>child_lock\<close> for each of the endpoints
  \<open>left\<close> and \<open>right\<close>). No cover descriptor is a light descriptor, and the descriptors the
  two sets share are exactly the common ones, \<open>switch_type\<close> and \<open>linkquality\<close>.
\<close>

theorem BMCT_SLZ_exposes_by_mode:
  assumes "getEndpoint dev 1 = Some ep"
  shows "(getClusterAttributeValue ep ''boschSpecific'' ''deviceMode''
            = map_option int (map_of stateDeviceMode ''shutter'') \<longrightarrow>
          BMCT_SLZ_exposes (Some dev) = Inr (commonExposes @ coverExposes))
       \<and> (getClusterAttributeValue ep ''boschSpecific'' ''deviceMode''
            = map_option int (map_of stateDeviceMode ''light'') \<longrightarrow>
          BMCT_SLZ_exposes (Some dev) = Inr (commonExposes @ lightExposes))
       \<and> set coverExposes \<inter> set lightExposes = {}
       \<and> set (commonExposes @ coverExposes) \<inter> set (commonExposes @ lightExposes)
           = set commonExposes
       \<and> map ex_feature commonExposes =
           [e_enum ''switch_type'' ea_ALL
              [''button'', ''button_key_change'', ''rocker_switch'', ''rocker_switch_key_change''],
            e_linkquality]
       \<and> map ex_feature coverExposes =
           [e_cover_position,
            e_enum ''motor_state'' ea_STATE [''stopped'', ''opening'', ''closing''],
            e_binary ''child_lock'' ea_ALL (JStr ''ON'') (JStr ''OFF''),
            e_numeric ''calibration_closing_time'' ea_ALL,
            e_numeric ''calibration_opening_time'' ea_ALL,
            e_numeric ''calibration_button_hold_time'' ea_ALL,
            e_numeric ''calibration_motor_start_delay'' ea_ALL]
       \<and> map (\<lambda>x. (ex_feature x, ex_endpoint x)) lightExposes =
           [(e_switch, Some ''left''), (e_switch, Some ''right''),
            (e_power_on_behavior, Some ''left''), (e_power_on_behavior, Some ''right''),
            (e_binary ''child_lock'' ea_ALL (JStr ''ON'') (JStr ''OFF''), Some ''left''),
            (e_binary ''child_lock'' ea_ALL (JStr ''ON'') (JStr ''OFF''), Some ''right'')]"
proof -
  have shutter: "map_option int (map_of stateDeviceMode ''shutter'') = Some 1"
    and light: "map_option int (map_of stateDeviceMode ''light'') = Some 4"
    by (simp_all add: stateDeviceMode_def)
  have a: "getClusterAttributeValue ep ''boschSpecific'' ''deviceMode'' = Some 1 \<Longrightarrow>
      BMCT_SLZ_exposes (Some dev) = Inr (commonExposes @ coverExposes)"
    using assms by (simp add: BMCT_SLZ_exposes_def stateDeviceMode_find)
  have b: "getClusterAttributeValue ep ''boschSpecific'' ''deviceMode'' = Some 4 \<Longrightarrow>
      BMCT_SLZ_exposes (Some dev) = Inr (commonExposes @ lightExposes)"
    using assms by (simp add: BMCT_SLZ_exposes_def stateDeviceMode_find)
  have c: "set (commonExposes @ coverExposes) \<inter> set (commonExposes @ lightExposes)
      = set commonExposes"
    using cover_light_disjoint common_cover_disjoint common_light_disjoint by auto
  have d: "map ex_feature commonExposes =
      [e_enum ''switch_type'' ea_ALL
         [''button'', ''button_key_change'', ''rocker_switch'', ''rocker_switch_key_change''],
       e_linkquality]"
    by (simp add: commonExposes_def chain_def preset_def withDescription_def keys_def
        stateSwitchType_def)
  have e: "map ex_feature coverExposes =
      [e_cover_position,
       e_enum ''motor_state'' ea_STATE [''stopped'', ''opening'', ''closing''],
       e_binary ''child_lock'' ea_ALL (JStr ''ON'') (JStr ''OFF''),
       e_numeric ''calibration_closing_time'' ea_ALL,
       e_numeric ''calibration_opening_time'' ea_ALL,
       e_numeric ''calibration_button_hold_time'' ea_ALL,
       e_numeric ''calibration_motor_start_delay'' ea_ALL]"
    by (simp add: coverExposes_def chain_def preset_def withDescription_def withUnit_def
        withValueMin_def withValueMax_def withValueStep_def keys_def stateMotor_def)
  have f: "map (\<lambda>x. (ex_feature x, ex_endpoint x)) lightExposes =
      [(e_switch, Some ''left''), (e_switch, Some ''right''),
       (e_power_on_behavior, Some ''left''), (e_power_on_behavior, Some ''right''),
       (e_binary ''child_lock'' ea_ALL (JStr ''ON'') (JStr ''OFF''), Some ''left''),
       (e_binary ''child_lock'' ea_ALL (JStr ''ON'') (JStr ''OFF''), Some ''right'')]"
    by (simp add: lightExposes_def chain_def preset_def withDescription_def withEndpoint_def)
  from a b c d e f cover_light_disjoint show ?thesis
    unfolding shutter light by blast
qed

theorem BMCT_SLZ_exposes_by_mode_witness:
  "BMCT_SLZ_exposes (Some [(1, [((''boschSpecific'', ''deviceMode''), 1)])])
     = Inr (commonExposes @ coverExposes)
   \<and> BMCT_SLZ_exposes (Some [(1, [((''boschSpecific'', ''deviceMode''), 4)])])
     = Inr (commonExposes @ lightExposes)"
proof -
  have a: "getEndpoint [(1, [((''boschSpecific'', ''deviceMode''), 1)])] 1
      = Some [((''boschSpecific'', ''deviceMode''), 1)]"
    and b: "getEndpoint [(1, [((''boschSpecific'', ''deviceMode''), 4)])] 1
      = Some [((''boschSpecific'', ''deviceMode''), 4)]"
    by (simp_all add: getEndpoint_def)
  show ?thesis
    using BMCT_SLZ_exposes_by_mode [OF a] BMCT_SLZ_exposes_by_mode [OF b]
    by (simp add: getClusterAttributeValue_def stateDeviceMode_def)
qed

section \<open>Button presses: repeated messages and the long-press registry\<close>

lemma reads_wellformed:
  assumes "8 \<le> length d"
  shows "readUInt8 d 3 = Inr (d ! 3)" "readUInt8 d 4 = Inr (d ! 4)" "readUInt8 d 5 = Inr (d ! 5)"
    "readUInt16LE d 6 = Inr (d ! 6 + 256 * d ! 7)"
  using assms by (simp_all add: readUInt8_def readUInt16LE_def)

lemma convert_duplicate:
  assumes "8 \<le> length (msg_bytes m)"
    and "msg_bytes m ! 3 \<in> set (processed st (msg_endpoint m))"
  shows "bhius_button_press_convert accepts st led m =
    \<lparr>after = st, logged = fst (ledResponse led), issued = [], returned = Inr None\<rparr>"
  using assms(2)
  by (simp add: bhius_button_press_convert_def reads_wellformed [OF assms(1)]
      hasAlreadyProcessedMessage_def Let_def)

lemma convert_fresh:
  assumes "8 \<le> length (msg_bytes m)"
    and "msg_bytes m ! 3 \<notin> set (processed st (msg_endpoint m))"
    and "map_of buttons (msg_bytes m ! 4) = Some b"
  shows "bhius_button_press_convert accepts st led m =
    (let ep = msg_endpoint m;
         st1 = st\<lparr>processed := (processed st)(ep := msg_bytes m ! 3 # processed st ep)\<rparr>
     in if msg_bytes m ! 5 \<noteq> 0 \<and> msg_bytes m ! 6 + 256 * msg_bytes m ! 7 > 0 then
          (if registry st (ep, b) \<noteq> None then
             \<lparr>after = st1, logged = fst (ledResponse led), issued = [], returned = Inr None\<rparr>
           else
             \<lparr>after = st1\<lparr>registry :=
                  (registry st)((ep, b) \<mapsto> msg_bytes m ! 6 + 256 * msg_bytes m ! 7)\<rparr>,
              logged = fst (ledResponse led), issued = [],
              returned = Inr (Some [(''action'', JStr (''button_'' @ b @ ''_longpress''))])\<rparr>)
        else
          \<lparr>after = st1\<lparr>registry := (registry st)((ep, b) := None)\<rparr>,
           logged = fst (ledResponse led),
           issued =
             [Command MsgEndpoint (ByName ''boschSpecific'') (ByName ''confirmButtonPressed'')
                [(''data'', JBuffer (snd (ledResponse led)))] SendImmediate],
           returned =
             Inr (Some [(''action'',
               JStr (''button_'' @ b @ ''_'' @
                 (if msg_bytes m ! 5 \<noteq> 0 then ''longpress_release'' else ''release'')))])\<rparr>)"
  using assms(2,3)
  by (simp add: bhius_button_press_convert_def reads_wellformed [OF assms(1)]
      hasAlreadyProcessedMessage_def hasValue_def putValue_def clearValue_def fireAndForget_def
      Let_def)

lemma convert_processed_mono:
  assumes "x \<in> set (processed st ep)"
  shows "x \<in> set (processed (after (bhius_button_press_convert accepts st led m)) ep)"
  using assms
  by (auto simp: bhius_button_press_convert_def hasAlreadyProcessedMessage_def hasValue_def
      putValue_def clearValue_def Let_def split: sum.split option.split)

lemma convert_records_sequence_number:
  assumes "8 \<le> length (msg_bytes m)"
  shows "msg_bytes m ! 3
    \<in> set (processed (after (bhius_button_press_convert accepts st led m)) (msg_endpoint m))"
  by (simp add: bhius_button_press_convert_def reads_wellformed [OF assms]
      hasAlreadyProcessedMessage_def hasValue_def putValue_def clearValue_def Let_def
      split: option.split)

lemma feed_processed_mono:
  "x \<in> set (processed st ep) \<Longrightarrow> x \<in> set (processed (feed accepts st ms) ep)"
proof (induction ms arbitrary: st)
  case Nil
  then show ?case by simp
next
  case (Cons lm ms)
  obtain led m where lm: "lm = (led, m)" by (cases lm)
  from Cons.prems have "x \<in> set (processed (after (bhius_button_press_convert accepts st led m)) ep)"
    by (rule convert_processed_mono)
  then show ?case unfolding lm by (simp add: Cons.IH)
qed

lemma ledResponse_logged:
  "fst (ledResponse led) =
     (case led of
        None \<Rightarrow> []
      | Some s \<Rightarrow>
          if length (hexDecode s) = 9 then []
          else [InvalidLedResponseLength (length (hexDecode s))])"
  by (simp add: ledResponse_def Let_def split: option.split)

text \<open>
  C4 (counterexample). With the option \<open>led_response\<close> set to a string that is not nine
  bytes long, the second invocation on the same message logs the length error again: the
  option is read before the check for an already processed message.
\<close>

theorem duplicate_button_press_counterexample:
  "logged
     (bhius_button_press_convert accepting
        (after
           (bhius_button_press_convert accepting emptyStore (Some ''ff'')
              \<lparr>msg_endpoint = (''0x00158d0001'', 1), msg_bytes = [0, 0, 0, 7, 0, 1, 10, 0]\<rparr>))
        (Some ''ff'')
        \<lparr>msg_endpoint = (''0x00158d0001'', 1), msg_bytes = [0, 0, 0, 7, 0, 1, 10, 0]\<rparr>)
   = [InvalidLedResponseLength 1]"
proof -
  have wf: "8 \<le> length (msg_bytes
      \<lparr>msg_endpoint = (''0x00158d0001'', 1 :: nat), msg_bytes = [0, 0, 0, 7, 0, 1, 10, 0]\<rparr>)"
    by simp
  have led: "fst (ledResponse (Some ''ff'')) = [InvalidLedResponseLength 1]"
    by (simp add: ledResponse_def hexDigit_def Let_def)
  show ?thesis
    using convert_duplicate [OF wf convert_records_sequence_number [OF wf], of accepting
        accepting emptyStore "Some ''ff''" "Some ''ff''"]
    by (simp add: led)
qed

text \<open>
  C4 (amended). For two raw button-press messages of the same endpoint, each of the eight
  bytes the converter reads or more, that carry the same sequence number, whatever was
  processed in between: the second invocation returns no
  state patch, issues no command and leaves the store of processed numbers and the
  long-press registry as they were. It logs the length error of the \<open>led_response\<close> option
  when that option is set and is not nine bytes long, and nothing else.
\<close>

theorem duplicate_button_press_is_dropped:
  assumes "8 \<le> length (msg_bytes m1)" and "8 \<le> length (msg_bytes m2)"
    and "msg_endpoint m2 = msg_endpoint m1"
    and "msg_bytes m2 ! 3 = msg_bytes m1 ! 3"
    and "st2 = feed accepts (after (bhius_button_press_convert accepts st led1 m1)) between"
  shows "bhius_button_press_convert accepts st2 led2 m2 =
      \<lparr>after = st2,
       logged =
         (case led2 of
            None \<Rightarrow> []
          | Some s \<Rightarrow>
              if length (hexDecode s) = 9 then []
              else [InvalidLedResponseLength (length (hexDecode s))]),
       issued = [], returned = Inr None\<rparr>"
proof -
  have "msg_bytes m1 ! 3
      \<in> set (processed (after (bhius_button_press_convert accepts st led1 m1)) (msg_endpoint m1))"
    using assms(1) by (rule convert_records_sequence_number)
  then have "msg_bytes m1 ! 3 \<in> set (processed st2 (msg_endpoint m1))"
    unfolding assms(5) by (rule feed_processed_mono)
  then have "msg_bytes m2 ! 3 \<in> set (processed st2 (msg_endpoint m2))"
    by (simp add: assms(3,4))
  from convert_duplicate [OF assms(2) this] show ?thesis
    by (simp add: ledResponse_logged)
qed

theorem duplicate_button_press_is_dropped_witness:
  "returned
     (bhius_button_press_convert accepting
        (feed accepting
           (after
              (bhius_button_press_convert accepting emptyStore None
                 \<lparr>msg_endpoint = (''0x00158d0001'', 1), msg_bytes = [0, 0, 0, 7, 0, 1, 10, 0]\<rparr>))
           [(None,
             \<lparr>msg_endpoint = (''0x00158d0001'', 1), msg_bytes = [0, 0, 0, 8, 0, 1, 0, 0]\<rparr>)])
        None
        \<lparr>msg_endpoint = (''0x00158d0001'', 1), msg_bytes = [0, 0, 0, 7, 0, 1, 10, 0]\<rparr>)
   = Inr None"
proof -
  have wf: "8 \<le> length (msg_bytes
      \<lparr>msg_endpoint = (''0x00158d0001'', 1 :: nat), msg_bytes = [0, 0, 0, 7, 0, 1, 10, 0]\<rparr>)"
    by simp
  show ?thesis
    using duplicate_button_press_is_dropped [OF wf wf refl refl refl, of accepting emptyStore
        None "[(None,
          \<lparr>msg_endpoint = (''0x00158d0001'', 1), msg_bytes = [0, 0, 0, 8, 0, 1, 0, 0]\<rparr>)]" None]
    by simp
qed

text \<open>
  C5 (counterexample). A long press of the top left button with a nonzero duration creates
  the entry, the release clears it, and the same long press, arriving again with its
  sequence number, finds no entry and creates none: it is dropped as already processed.
\<close>

theorem long_press_registry_counterexample:
  "registry
     (feed accepting emptyStore
        [(None, \<lparr>msg_endpoint = (''0x00158d0001'', 1), msg_bytes = [0, 0, 0, 7, 0, 1, 10, 0]\<rparr>),
         (None, \<lparr>msg_endpoint = (''0x00158d0001'', 1), msg_bytes = [0, 0, 0, 8, 0, 1, 0, 0]\<rparr>)])
     ((''0x00158d0001'', 1), ''top_left'') = None
   \<and> registry
     (after
        (bhius_button_press_convert accepting
           (feed accepting emptyStore
              [(None,
                \<lparr>msg_endpoint = (''0x00158d0001'', 1), msg_bytes = [0, 0, 0, 7, 0, 1, 10, 0]\<rparr>),
               (None,
                \<lparr>msg_endpoint = (''0x00158d0001'', 1), msg_bytes = [0, 0, 0, 8, 0, 1, 0, 0]\<rparr>)])
           None
           \<lparr>msg_endpoint = (''0x00158d0001'', 1), msg_bytes = [0, 0, 0, 7, 0, 1, 10, 0]\<rparr>))
     ((''0x00158d0001'', 1), ''top_left'') = None"
  by (simp add: bhius_button_press_convert_def readUInt8_def readUInt16LE_def
      hasAlreadyProcessedMessage_def hasValue_def putValue_def clearValue_def fireAndForget_def
      emptyStore_def buttons_def Let_def)

text \<open>
  C5 (amended). The lifecycle of the pending long-press registry, for a raw button-press
  message (of the eight bytes the converter reads or more) that is not dropped as already
  processed and names one of the four buttons. A long press with a nonzero duration and no
  entry for the button creates the entry, holding the duration, and this is the only way an
  entry comes into being; a long press while the entry exists returns no patch and leaves
  the registry alone. Any other message for the button, a release, removes the entry and
  returns its patch; when there was no entry the registry is left as it was, and no error
  is thrown. Entries of other buttons and endpoints are never touched.
\<close>

theorem long_press_registry_lifecycle:
  assumes "8 \<le> length (msg_bytes m)"
    and "msg_bytes m ! 3 \<notin> set (processed st (msg_endpoint m))"
    and "map_of buttons (msg_bytes m ! 4) = Some b"
    and "r = bhius_button_press_convert accepts st led m"
    and "ep = msg_endpoint m"
    and "longPress = msg_bytes m ! 5"
    and "duration = msg_bytes m ! 6 + 256 * msg_bytes m ! 7"
  shows "(longPress \<noteq> 0 \<and> duration > 0 \<and> registry st (ep, b) = None \<longrightarrow>
            registry (after r) = (registry st)((ep, b) \<mapsto> duration)
            \<and> returned r = Inr (Some [(''action'', JStr (''button_'' @ b @ ''_longpress''))]))
       \<and> (longPress \<noteq> 0 \<and> duration > 0 \<and> registry st (ep, b) \<noteq> None \<longrightarrow>
            registry (after r) = registry st \<and> returned r = Inr None \<and> issued r = [])
       \<and> (\<not> (longPress \<noteq> 0 \<and> duration > 0) \<longrightarrow>
            registry (after r) = (registry st)((ep, b) := None)
            \<and> returned r =
                Inr (Some [(''action'',
                  JStr (''button_'' @ b @ ''_'' @
                    (if longPress \<noteq> 0 then ''longpress_release'' else ''release'')))]))
       \<and> (\<not> (longPress \<noteq> 0 \<and> duration > 0) \<and> registry st (ep, b) = None \<longrightarrow>
            registry (after r) = registry st)
       \<and> ((registry st (ep, b) = None \<and> registry (after r) (ep, b) \<noteq> None)
            = (longPress \<noteq> 0 \<and> duration > 0 \<and> registry st (ep, b) = None))
       \<and> (\<forall>k. k \<noteq> (ep, b) \<longrightarrow> registry (after r) k = registry st k)"
proof -
  note r = assms(4) [unfolded convert_fresh [OF assms(1,2,3)], folded assms(5,6,7)]
  have held: "longPress \<noteq> 0 \<and> duration > 0 \<and> registry st (ep, b) = None \<Longrightarrow>
      registry (after r) = (registry st)((ep, b) \<mapsto> duration)
      \<and> returned r = Inr (Some [(''action'', JStr (''button_'' @ b @ ''_longpress''))])"
    by (simp add: r Let_def)
  have again: "longPress \<noteq> 0 \<and> duration > 0 \<and> registry st (ep, b) \<noteq> None \<Longrightarrow>
      registry (after r) = registry st \<and> returned r = Inr None \<and> issued r = []"
    by (auto simp: r Let_def)
  have release: "\<not> (longPress \<noteq> 0 \<and> duration > 0) \<Longrightarrow>
      registry (after r) = (registry st)((ep, b) := None)
      \<and> returned r =
          Inr (Some [(''action'',
            JStr (''button_'' @ b @ ''_'' @
              (if longPress \<noteq> 0 then ''longpress_release'' else ''release'')))])"
    by (auto simp: r Let_def)
  have idle: "\<not> (longPress \<noteq> 0 \<and> duration > 0) \<and> registry st (ep, b) = None \<Longrightarrow>
      registry (after r) = registry st"
    using release by (auto simp: fun_upd_idem_iff)
  have created: "(registry st (ep, b) = None \<and> registry (after r) (ep, b) \<noteq> None)
      = (longPress \<noteq> 0 \<and> duration > 0 \<and> registry st (ep, b) = None)"
    using held release by (cases "longPress \<noteq> 0 \<and> duration > 0") auto
  have others: "\<forall>k. k \<noteq> (ep, b) \<longrightarrow> registry (after r) k = registry st k"
    using held again release
    by (cases "longPress \<noteq> 0 \<and> duration > 0"; cases "registry st (ep, b) = None") auto
  from held again release idle created others show ?thesis by blast
qed

theorem long_press_registry_lifecycle_witness:
  "registry
     (after (bhius_button_press_convert accepting emptyStore None
        \<lparr>msg_endpoint = (''0x00158d0001'', 1), msg_bytes = [0, 0, 0, 7, 0, 1, 10, 0]\<rparr>))
     ((''0x00158d0001'', 1), ''top_left'') = Some 10
   \<and> returned (bhius_button_press_convert accepting emptyStore None
        \<lparr>msg_endpoint = (''0x00158d0001'', 1), msg_bytes = [0, 0, 0, 8, 0, 1, 0, 0]\<rparr>)
     = Inr (Some [(''action'', JStr ''button_top_left_longpress_release'')])
   \<and> registry
     (after (bhius_button_press_convert accepting emptyStore None
        \<lparr>msg_endpoint = (''0x00158d0001'', 1), msg_bytes = [0, 0, 0, 8, 0, 1, 0, 0]\<rparr>))
     = registry emptyStore"
proof -
  have wf1: "8 \<le> length (msg_bytes
      \<lparr>msg_endpoint = (''0x00158d0001'', 1 :: nat), msg_bytes = [0, 0, 0, 7, 0, 1, 10, 0]\<rparr>)"
    and wf2: "8 \<le> length (msg_bytes
      \<lparr>msg_endpoint = (''0x00158d0001'', 1 :: nat), msg_bytes = [0, 0, 0, 8, 0, 1, 0, 0]\<rparr>)"
    by simp_all
  have fresh1: "msg_bytes
      \<lparr>msg_endpoint = (''0x00158d0001'', 1 :: nat), msg_bytes = [0, 0, 0, 7, 0, 1, 10, 0]\<rparr> ! 3
      \<notin> set (processed emptyStore (msg_endpoint
        \<lparr>msg_endpoint = (''0x00158d0001'', 1 :: nat), msg_bytes = [0, 0, 0, 7, 0, 1, 10, 0]\<rparr>))"
    and fresh2: "msg_bytes
      \<lparr>msg_endpoint = (''0x00158d0001'', 1 :: nat), msg_bytes = [0, 0, 0, 8, 0, 1, 0, 0]\<rparr> ! 3
      \<notin> set (processed emptyStore (msg_endpoint
        \<lparr>msg_endpoint = (''0x00158d0001'', 1 :: nat), msg_bytes = [0, 0, 0, 8, 0, 1, 0, 0]\<rparr>))"
    by (simp_all add: emptyStore_def)
  have b1: "map_of buttons (msg_bytes
      \<lparr>msg_endpoint = (''0x00158d0001'', 1 :: nat), msg_bytes = [0, 0, 0, 7, 0, 1, 10, 0]\<rparr> ! 4)
      = Some ''top_left''"
    and b2: "map_of buttons (msg_bytes
      \<lparr>msg_endpoint = (''0x00158d0001'', 1 :: nat), msg_bytes = [0, 0, 0, 8, 0, 1, 0, 0]\<rparr> ! 4)
      = Some ''top_left''"
    by (simp_all add: buttons_def)
  show ?thesis
    using long_press_registry_lifecycle [OF wf1 fresh1 b1 refl refl refl refl, of accepting None]
      long_press_registry_lifecycle [OF wf2 fresh2 b2 refl refl refl refl, of accepting None]
    by (simp add: emptyStore_def)
qed

section \<open>Commands sent while decoding\<close>







end
